theory Spec2Isabelle
  imports Main "HOL-Library.Sublist"
begin

section \<open>Country Explorer: the page script \<^verbatim>\<open>app.js\<close>\<close>

text \<open>
  The script is browser glue: it reads the JSON answer of a country look-up, formats a few
  strings and writes them into the page. The embedding has three layers:
  \<^item> the values of the script (JSON data) and the built-in operations the script applies to
    them, with every exception as a value;
  \<^item> the page as a record of the attributes and texts the script reads and writes, passed
    explicitly through every function that touches it;
  \<^item> the functions of \<^verbatim>\<open>app.js\<close>, under their own names.

  Each function is quoted from the source before its definition, without its comments and
  its console output.
\<close>

subsection \<open>Values\<close>

text \<open>
  A value is what \<^verbatim>\<open>response.json()\<close> can deliver, plus \<^verbatim>\<open>undefined\<close> (the result of
  reading a property that is not there).
  \<^item> A string is its list of code units; the model carries the code units up to 255, which
    is what \<^typ>\<open>char\<close> holds.
  \<^item> A number is one of three. \<open>Num i\<close> is the safe integer \<open>i\<close>, at most
    \<open>2\<^sup>5\<^sup>3 - 1\<close> in absolute value (\<open>safe_integer\<close>): these are the integers that a
    number holds exactly and renders as their decimal numeral, and every array length is
    one. \<open>NegZero\<close> is the negative zero, which JSON can deliver. \<open>Frac s\<close> is any other
    number, a number that is not an integer or an integer beyond the safe range,
    represented by the text \<open>s\<close> that the language's number-to-string conversion gives for
    it: the script only ever renders such numbers. A value \<open>Num i\<close> with \<open>i\<close> beyond the
    safe range stands for no number; the properties that render numbers are stated for
    \<open>is_number\<close> values, which excludes it.
  \<^item> \<open>Obj kvs\<close> lists the own properties of a plain object in enumeration order, which is
    the order \<^verbatim>\<open>Object.values\<close> follows; keys are distinct.
\<close>

datatype jsval =
    Undefined
  | Null
  | Bool bool
  | Num int
  | NegZero
  | Frac string
  | Str string
  | Arr "jsval list"
  | Obj "(string \<times> jsval) list"

text \<open>
  Exceptions. \<open>Error msg\<close> is an exception object whose \<^verbatim>\<open>message\<close> is \<open>msg\<close>: the ones the
  script makes with \<^verbatim>\<open>new Error(msg)\<close>, and the rejections of \<^verbatim>\<open>fetch\<close> and
  \<^verbatim>\<open>response.json()\<close>, whose message the browser chooses. \<open>TypeError c\<close> is raised by the
  language itself; \<open>c\<close> records why, the wording of its message is the engine's.
\<close>

datatype type_error =
    ReadOf jsval string    \<comment> \<open>a property of \<^verbatim>\<open>undefined\<close> or \<^verbatim>\<open>null\<close> was read\<close>
  | NotAFunction string    \<comment> \<open>the named method was called on a value that has no such function\<close>
  | NoPrimitive            \<comment> \<open>an object could not be converted to a primitive value\<close>
  | NoObject               \<comment> \<open>\<^verbatim>\<open>undefined\<close> or \<^verbatim>\<open>null\<close> could not be converted to an object\<close>

datatype error = Error string | TypeError type_error

definition bind :: "error + 'a \<Rightarrow> ('a \<Rightarrow> error + 'b) \<Rightarrow> error + 'b" where
  "bind m f = (case m of Inl e \<Rightarrow> Inl e | Inr v \<Rightarrow> f v)"

definition safe_integer :: "int \<Rightarrow> bool" where
  "safe_integer i = (- 9007199254740991 \<le> i \<and> i \<le> 9007199254740991)"

definition nullish :: "jsval \<Rightarrow> bool" where
  "nullish v = (v = Undefined \<or> v = Null)"

text \<open>\<^verbatim>\<open>ToBoolean\<close>: what \<^verbatim>\<open>!v\<close>, \<^verbatim>\<open>v ? a : b\<close>, \<^verbatim>\<open>v || w\<close> and \<^verbatim>\<open>v && w\<close> test.\<close>

fun truthy :: "jsval \<Rightarrow> bool" where
  "truthy Undefined = False"
| "truthy Null = False"
| "truthy (Bool b) = b"
| "truthy (Num i) = (i \<noteq> 0)"
| "truthy NegZero = False"
| "truthy (Frac s) = True"
| "truthy (Str s) = (s \<noteq> [])"
| "truthy (Arr xs) = True"
| "truthy (Obj kvs) = True"

subsection \<open>Decimal numerals\<close>

definition digit_char :: "nat \<Rightarrow> char" where
  "digit_char d = ''0123456789'' ! d"

fun show_nat :: "nat \<Rightarrow> string" where
  "show_nat n = (if n < 10 then [digit_char n] else show_nat (n div 10) @ [digit_char (n mod 10)])"

declare show_nat.simps [simp del]

definition show_int :: "int \<Rightarrow> string" where
  "show_int i = (if i < 0 then CHR ''-'' # show_nat (nat (- i)) else show_nat (nat i))"

subsection \<open>Built-in operations\<close>

text \<open>
  \<open>get v p\<close> is the property read \<^verbatim>\<open>v.p\<close> for the data properties the script names (no
  built-in prototype defines any of them; \<^verbatim>\<open>length\<close> is an own property of arrays and
  strings). Reading from \<^verbatim>\<open>undefined\<close> or \<^verbatim>\<open>null\<close> throws; a property that is not
  there reads as \<^verbatim>\<open>undefined\<close>.
\<close>

definition lookup :: "(string \<times> jsval) list \<Rightarrow> string \<Rightarrow> jsval" where
  "lookup kvs p = (case map_of kvs p of None \<Rightarrow> Undefined | Some v \<Rightarrow> v)"

fun get :: "jsval \<Rightarrow> string \<Rightarrow> error + jsval" where
  "get Undefined p = Inl (TypeError (ReadOf Undefined p))"
| "get Null p = Inl (TypeError (ReadOf Null p))"
| "get (Obj kvs) p = Inr (lookup kvs p)"
| "get (Arr xs) p = Inr (if p = ''length'' then Num (int (length xs)) else Undefined)"
| "get (Str s) p = Inr (if p = ''length'' then Num (int (length s)) else Undefined)"
| "get v p = Inr Undefined"

text \<open>\<open>index v i\<close> is \<^verbatim>\<open>v[i]\<close> for a literal index; out of range it reads \<^verbatim>\<open>undefined\<close>.\<close>

fun index :: "jsval \<Rightarrow> nat \<Rightarrow> error + jsval" where
  "index Undefined i = Inl (TypeError (ReadOf Undefined (show_nat i)))"
| "index Null i = Inl (TypeError (ReadOf Null (show_nat i)))"
| "index (Arr xs) i = Inr (if i < length xs then xs ! i else Undefined)"
| "index (Str s) i = Inr (if i < length s then Str [s ! i] else Undefined)"
| "index (Obj kvs) i = Inr (lookup kvs (show_nat i))"
| "index v i = Inr Undefined"

text \<open>\<^verbatim>\<open>Object.values(v)\<close>: the own enumerable property values, in enumeration order.\<close>

fun Object_values :: "jsval \<Rightarrow> error + jsval list" where
  "Object_values Undefined = Inl (TypeError NoObject)"
| "Object_values Null = Inl (TypeError NoObject)"
| "Object_values (Obj kvs) = Inr (map snd kvs)"
| "Object_values (Arr xs) = Inr xs"
| "Object_values (Str s) = Inr (map (\<lambda>c. Str [c]) s)"
| "Object_values v = Inr []"

text \<open>
  \<^verbatim>\<open>ToString\<close>, as a template literal and string concatenation apply it. A plain object
  renders as \<^verbatim>\<open>[object Object]\<close> through the inherited \<^verbatim>\<open>toString\<close>; an own property
  of that name shadows it, is data and not a function, and the conversion throws. An array
  renders as its elements joined by commas, \<^verbatim>\<open>undefined\<close> and \<^verbatim>\<open>null\<close> elements as
  the empty string (\<open>ToStrings\<close> is that element-wise conversion, left to right).
\<close>

fun join_with :: "string \<Rightarrow> string list \<Rightarrow> string" where
  "join_with sep [] = []"
| "join_with sep [s] = s"
| "join_with sep (s # t # ss) = s @ sep @ join_with sep (t # ss)"

fun ToString :: "jsval \<Rightarrow> error + string"
  and ToStrings :: "jsval list \<Rightarrow> error + string list" where
  "ToString Undefined = Inr ''undefined''"
| "ToString Null = Inr ''null''"
| "ToString (Bool b) = Inr (if b then ''true'' else ''false'')"
| "ToString (Num i) = Inr (show_int i)"
| "ToString NegZero = Inr ''0''"
| "ToString (Frac s) = Inr s"
| "ToString (Str s) = Inr s"
| "ToString (Arr xs) = bind (ToStrings xs) (\<lambda>ss. Inr (join_with '','' ss))"
| "ToString (Obj kvs) =
     (if map_of kvs ''toString'' \<noteq> None then Inl (TypeError NoPrimitive)
      else Inr ''[object Object]'')"
| "ToStrings [] = Inr []"
| "ToStrings (x # xs) =
     bind (if nullish x then Inr [] else ToString x) (\<lambda>s.
     bind (ToStrings xs) (\<lambda>ss. Inr (s # ss)))"

text \<open>\<^verbatim>\<open>xs.join(sep)\<close> on an array, and the method call \<^verbatim>\<open>v.join(sep)\<close> on any value.\<close>

definition Array_join :: "string \<Rightarrow> jsval list \<Rightarrow> error + string" where
  "Array_join sep xs = bind (ToStrings xs) (\<lambda>ss. Inr (join_with sep ss))"

fun call_join :: "jsval \<Rightarrow> string \<Rightarrow> error + string" where
  "call_join Undefined sep = Inl (TypeError (ReadOf Undefined ''join''))"
| "call_join Null sep = Inl (TypeError (ReadOf Null ''join''))"
| "call_join (Arr xs) sep = Array_join sep xs"
| "call_join v sep = Inl (TypeError (NotAFunction ''join''))"

text \<open>\<^verbatim>\<open>xs.map(f)\<close> on an array: the callback runs left to right, the first throw ends it.\<close>

fun Array_map :: "('a \<Rightarrow> error + 'b) \<Rightarrow> 'a list \<Rightarrow> error + 'b list" where
  "Array_map f [] = Inr []"
| "Array_map f (x # xs) = bind (f x) (\<lambda>y. bind (Array_map f xs) (\<lambda>ys. Inr (y # ys)))"

text \<open>
  What the engine and its libraries decide and the script does not: the wording of a
  \<^verbatim>\<open>TypeError\<close>, whether a string read as a number is greater than zero, and the
  \<^verbatim>\<open>en-US\<close> rendering of a number that is not a safe integer (given its
  number-to-string text). Every function that depends on one of them takes the engine as a
  parameter.
\<close>

record engine =
  type_error_message :: "type_error \<Rightarrow> string"
  string_positive :: "string \<Rightarrow> bool"
  fraction_locale_string :: "string \<Rightarrow> string"

definition message :: "engine \<Rightarrow> error \<Rightarrow> string" where
  "message eng e = (case e of Error msg \<Rightarrow> msg | TypeError c \<Rightarrow> type_error_message eng c)"

text \<open>
  \<^verbatim>\<open>v > 0\<close>: the value is converted to a number (\<^verbatim>\<open>undefined\<close> to \<^verbatim>\<open>NaN\<close>, \<^verbatim>\<open>null\<close> to
  0, an array or object through its string) and compared.
\<close>

fun gt_zero :: "engine \<Rightarrow> jsval \<Rightarrow> error + bool" where
  "gt_zero eng Undefined = Inr False"
| "gt_zero eng Null = Inr False"
| "gt_zero eng (Bool b) = Inr b"
| "gt_zero eng (Num i) = Inr (0 < i)"
| "gt_zero eng NegZero = Inr False"
| "gt_zero eng (Frac s) = Inr (take 1 s \<noteq> ''-'')"
| "gt_zero eng (Str s) = Inr (string_positive eng s)"
| "gt_zero eng (Arr xs) = bind (ToString (Arr xs)) (\<lambda>s. Inr (string_positive eng s))"
| "gt_zero eng (Obj kvs) = bind (ToString (Obj kvs)) (\<lambda>s. Inr False)"

text \<open>\<^verbatim>\<open>s.includes(t)\<close> and \<^verbatim>\<open>s.trim()\<close> on strings.\<close>

definition String_includes :: "string \<Rightarrow> string \<Rightarrow> bool" where
  "String_includes s t = sublist t s"

definition whitespace :: "char \<Rightarrow> bool" where
  "whitespace c = (of_char c \<in> {9, 10, 11, 12, 13, 32, 160 :: nat})"

definition trim :: "string \<Rightarrow> string" where
  "trim s = rev (dropWhile whitespace (rev (dropWhile whitespace s)))"

text \<open>
  \<^verbatim>\<open>encodeURIComponent\<close>: unreserved characters stay, every other code unit becomes the
  percent-escapes of its UTF-8 bytes (one byte below 128, two from 128 to 255).
\<close>

definition hex_digit :: "nat \<Rightarrow> char" where
  "hex_digit d = ''0123456789ABCDEF'' ! d"

definition percent :: "nat \<Rightarrow> string" where
  "percent b = [CHR ''%'', hex_digit (b div 16), hex_digit (b mod 16)]"

definition unreserved :: "char \<Rightarrow> bool" where
  "unreserved c =
     (c \<in> set (''ABCDEFGHIJKLMNOPQRSTUVWXYZabcdefghijklmnopqrstuvwxyz0123456789-_.!~*()''
               @ [CHR 0x27]))"

definition encode_unit :: "char \<Rightarrow> string" where
  "encode_unit c =
     (let n = (of_char c :: nat) in
      if unreserved c then [c]
      else if n < 128 then percent n
      else percent (192 + n div 64) @ percent (128 + n mod 64))"

definition encodeURIComponent :: "string \<Rightarrow> string" where
  "encodeURIComponent s = concat (map encode_unit s)"

text \<open>
  \<^verbatim>\<open>v.toLocaleString('en-US')\<close>: a safe integer in groups of three digits, the negative
  zero with its sign; a string is itself; a boolean and a plain object go through
  \<^verbatim>\<open>toString\<close>; an array joins the renderings of its elements.
\<close>

fun group3 :: "string \<Rightarrow> string" where
  "group3 (a # b # c # d # ds) = a # b # c # CHR '','' # group3 (d # ds)"
| "group3 ds = ds"

definition group_thousands :: "string \<Rightarrow> string" where
  "group_thousands ds = rev (group3 (rev ds))"

fun toLocaleString :: "engine \<Rightarrow> jsval \<Rightarrow> error + string"
  and toLocaleStrings :: "engine \<Rightarrow> jsval list \<Rightarrow> error + string list" where
  "toLocaleString eng Undefined = Inl (TypeError (ReadOf Undefined ''toLocaleString''))"
| "toLocaleString eng Null = Inl (TypeError (ReadOf Null ''toLocaleString''))"
| "toLocaleString eng (Bool b) = Inr (if b then ''true'' else ''false'')"
| "toLocaleString eng (Num i) =
     Inr (if i < 0 then CHR ''-'' # group_thousands (show_nat (nat (- i)))
          else group_thousands (show_nat (nat i)))"
| "toLocaleString eng NegZero = Inr ''-0''"
| "toLocaleString eng (Frac s) = Inr (fraction_locale_string eng s)"
| "toLocaleString eng (Str s) = Inr s"
| "toLocaleString eng (Arr xs) = bind (toLocaleStrings eng xs) (\<lambda>ss. Inr (join_with '','' ss))"
| "toLocaleString eng (Obj kvs) =
     (if map_of kvs ''toLocaleString'' \<noteq> None then Inl (TypeError (NotAFunction ''toLocaleString''))
      else if map_of kvs ''toString'' \<noteq> None then Inl (TypeError (NotAFunction ''toString''))
      else Inr ''[object Object]'')"
| "toLocaleStrings eng [] = Inr []"
| "toLocaleStrings eng (x # xs) =
     bind (if nullish x then Inr [] else toLocaleString eng x) (\<lambda>s.
     bind (toLocaleStrings eng xs) (\<lambda>ss. Inr (s # ss)))"

subsection \<open>Data formatting utilities\<close>

text \<open>
  \<^verbatim>\<open>
  function formatNumber(num) {
      return num.toLocaleString('en-US');
  }
  \<close>
\<close>

definition formatNumber :: "engine \<Rightarrow> jsval \<Rightarrow> error + string" where
  "formatNumber eng num = toLocaleString eng num"

text \<open>
  \<^verbatim>\<open>
  function getCurrencies(currencies) {
      if (!currencies) return 'Not available';
      const currencyList = Object.values(currencies).map(curr => {
          return curr.symbol ? `${curr.name} (${curr.symbol})` : curr.name;
      });
      return currencyList.join(', ');
  }
  \<close>
  \<open>currency_entry\<close> is the arrow function, its parameter \<^verbatim>\<open>curr\<close> written \<open>currency\<close>.
\<close>

definition currency_entry :: "jsval \<Rightarrow> error + jsval" where
  "currency_entry currency =
     bind (get currency ''symbol'') (\<lambda>symbol.
       if truthy symbol then
         bind (get currency ''name'') (\<lambda>name.
         bind (ToString name) (\<lambda>n.
         bind (ToString symbol) (\<lambda>s.
         Inr (Str (n @ '' ('' @ s @ '')'')))))
       else get currency ''name'')"

definition getCurrencies :: "jsval \<Rightarrow> error + string" where
  "getCurrencies currencies =
     (if \<not> truthy currencies then Inr ''Not available''
      else
        bind (Object_values currencies) (\<lambda>vs.
        bind (Array_map currency_entry vs) (\<lambda>currencyList.
        Array_join '', '' currencyList)))"

text \<open>
  \<^verbatim>\<open>
  function getLanguages(languages) {
      if (!languages) return ['Not available'];
      return Object.values(languages);
  }
  \<close>
\<close>

definition getLanguages :: "jsval \<Rightarrow> error + jsval list" where
  "getLanguages languages =
     (if \<not> truthy languages then Inr [Str ''Not available'']
      else Object_values languages)"

subsection \<open>The page\<close>

text \<open>
  The state the script reads and writes, one field per attribute or text it touches, named
  after the element's id. \<open>_hidden\<close> says that the element's class list holds
  \<^verbatim>\<open>hidden\<close> (\<^verbatim>\<open>classList.add\<close> and \<^verbatim>\<open>classList.remove\<close> set and clear it). A badge is
  the \<^verbatim>\<open>span\<close> that \<^verbatim>\<open>createBadge\<close> builds. \<open>fetched\<close> is the list of URLs handed to
  \<^verbatim>\<open>fetch\<close>, oldest first. Every element the script looks up by id exists in the page,
  and \<^verbatim>\<open>localStorage\<close> accepts every write. Console output is not part of the state.
\<close>

record badge =
  className :: string
  style_background :: string
  style_color :: string
  textContent :: string

record page =
  data_theme :: "string option"
  localStorage :: "string \<Rightarrow> string option"
  sunIcon_hidden :: bool
  moonIcon_hidden :: bool
  countryInput_value :: string
  loadingState_hidden :: bool
  resultsContainer_hidden :: bool
  resultsContainer_scrolls :: nat
  errorMessage_hidden :: bool
  errorMessage_text :: string
  countryFlag_src :: string
  countryFlag_alt :: string
  countryName_text :: string
  officialName_text :: string
  capital_text :: string
  region_text :: string
  population_text :: string
  area_text :: string
  currencies_text :: string
  languages_badges :: "badge list"
  domains_badges :: "badge list"
  countryMap_src :: string
  timezones_text :: string
  continent_text :: string
  callingCode_text :: string
  borders_text :: string
  independent_text :: string
  unMember_text :: string
  fetched :: "string list"

text \<open>
  A statement runs on the page and either completes or throws, leaving the page as it was
  at the throw. \<open>assign store e\<close> evaluates \<open>e\<close> and stores the value; \<open>run\<close> executes
  statements in order up to the first throw.
\<close>

type_synonym stmt = "page \<Rightarrow> error option \<times> page"

definition assign :: "('a \<Rightarrow> page \<Rightarrow> page) \<Rightarrow> error + 'a \<Rightarrow> stmt" where
  "assign store e p = (case e of Inl err \<Rightarrow> (Some err, p) | Inr v \<Rightarrow> (None, store v p))"

fun run :: "stmt list \<Rightarrow> stmt" where
  "run [] p = (None, p)"
| "run (s # ss) p = (case s p of (Some err, p') \<Rightarrow> (Some err, p') | (None, p') \<Rightarrow> run ss p')"

text \<open>
  Storing into \<^verbatim>\<open>textContent\<close> turns \<^verbatim>\<open>undefined\<close> and \<^verbatim>\<open>null\<close> into the empty text
  and converts every other value with \<^verbatim>\<open>ToString\<close>; storing into an attribute such as
  \<^verbatim>\<open>src\<close> converts with \<^verbatim>\<open>ToString\<close>.
\<close>

definition text_of :: "jsval \<Rightarrow> error + string" where
  "text_of v = (if nullish v then Inr [] else ToString v)"

text \<open>\<^verbatim>\<open>v.forEach(f)\<close>: only an array has the method.\<close>

fun call_forEach :: "jsval \<Rightarrow> (jsval \<Rightarrow> stmt) \<Rightarrow> stmt" where
  "call_forEach Undefined f = (\<lambda>p. (Some (TypeError (ReadOf Undefined ''forEach'')), p))"
| "call_forEach Null f = (\<lambda>p. (Some (TypeError (ReadOf Null ''forEach'')), p))"
| "call_forEach (Arr xs) f = run (map f xs)"
| "call_forEach v f = (\<lambda>p. (Some (TypeError (NotAFunction ''forEach'')), p))"

subsection \<open>Theme management\<close>

text \<open>
  \<^verbatim>\<open>
  function setTheme(theme) {
      document.documentElement.setAttribute('data-theme', theme);
      localStorage.setItem('theme', theme);
      const sunIcon = document.getElementById('sunIcon');
      const moonIcon = document.getElementById('moonIcon');
      if (theme === 'dark') {
          sunIcon.classList.add('hidden');
          moonIcon.classList.remove('hidden');
      } else {
          sunIcon.classList.remove('hidden');
          moonIcon.classList.add('hidden');
      }
  }
  function toggleTheme() {
      const currentTheme = document.documentElement.getAttribute('data-theme');
      const newTheme = currentTheme === 'dark' ? 'light' : 'dark';
      setTheme(newTheme);
  }
  function initializeTheme() {
      const savedTheme = localStorage.getItem('theme');
      const prefersDark = window.matchMedia('(prefers-color-scheme: dark)').matches;
      const theme = savedTheme || (prefersDark ? 'dark' : 'light');
      setTheme(theme);
  }
  \<close>
  \<^verbatim>\<open>getAttribute\<close> and \<^verbatim>\<open>getItem\<close> give \<^verbatim>\<open>null\<close>, here \<open>None\<close>, for what is not set.
  The media query's answer is the parameter \<open>prefersDark\<close>.
\<close>

definition setTheme :: "string \<Rightarrow> page \<Rightarrow> page" where
  "setTheme theme p =
     (let p1 = p\<lparr>data_theme := Some theme\<rparr>;
          p2 = p1\<lparr>localStorage := (localStorage p1)(''theme'' \<mapsto> theme)\<rparr>
      in if theme = ''dark''
         then p2\<lparr>sunIcon_hidden := True, moonIcon_hidden := False\<rparr>
         else p2\<lparr>sunIcon_hidden := False, moonIcon_hidden := True\<rparr>)"

definition toggleTheme :: "page \<Rightarrow> page" where
  "toggleTheme p =
     (let currentTheme = data_theme p;
          newTheme = (if currentTheme = Some ''dark'' then ''light'' else ''dark'')
      in setTheme newTheme p)"

definition initializeTheme :: "bool \<Rightarrow> page \<Rightarrow> page" where
  "initializeTheme prefersDark p =
     (let savedTheme = localStorage p ''theme'';
          theme = (case savedTheme of
                     Some s \<Rightarrow> if s \<noteq> [] then s else if prefersDark then ''dark'' else ''light''
                   | None \<Rightarrow> if prefersDark then ''dark'' else ''light'')
      in setTheme theme p)"

subsection \<open>API interaction\<close>

text \<open>
  The network is a function from the requested URL to what \<^verbatim>\<open>fetch\<close> does with it:
  it rejects with an error message, or resolves to a response with a status, a status text
  and a body. \<open>json\<close> is the outcome of \<^verbatim>\<open>response.json()\<close>: the parsed value, or the
  message of the rejection when the body is not JSON. \<^verbatim>\<open>response.ok\<close> is true exactly
  for the statuses 200 to 299.
\<close>

record response =
  status :: nat
  statusText :: string
  json :: "string + jsval"

datatype fetch_result = Rejected string | Fulfilled response

type_synonym network = "string \<Rightarrow> fetch_result"

definition ok :: "response \<Rightarrow> bool" where
  "ok r = (200 \<le> status r \<and> status r \<le> 299)"

text \<open>
  \<^verbatim>\<open>
  async function fetchCountryData(countryName) {
      const encodedName = encodeURIComponent(countryName);
      const apiUrl = `https://restcountries.com/v3.1/name/${encodedName}`;
      try {
          const response = await fetch(apiUrl);
          if (response.status === 404) {
              throw new Error(`Country "${countryName}" not found. Please check the spelling and try again.`);
          }
          if (!response.ok) {
              throw new Error(`API Error: ${response.status} - ${response.statusText}`);
          }
          const data = await response.json();
          if (data && data.length > 0) {
              return data[0];
          } else {
              throw new Error('No data returned from API');
          }
      } catch (error) {
          if (error.message.includes('Failed to fetch')) {
              throw new Error('Network error. Please check your internet connection and make sure you are running this through a web server (not file://)');
          }
          throw error;
      }
  }
  \<close>
  \<open>fetch_attempt\<close> is the \<^verbatim>\<open>try\<close> block, \<open>fetch_recover\<close> the \<^verbatim>\<open>catch\<close> block. The
  function is followed to the settlement of its promise: \<open>Inl\<close> is a rejection.
\<close>

definition not_found_message :: "string \<Rightarrow> string" where
  "not_found_message countryName =
     ''Country '' @ [CHR 0x22] @ countryName @ [CHR 0x22]
       @ '' not found. Please check the spelling and try again.''"

definition network_error_message :: string where
  "network_error_message =
     ''Network error. Please check your internet connection and make sure you ''
       @ ''are running this through a web server (not file://)''"

definition fetch_attempt :: "engine \<Rightarrow> string \<Rightarrow> fetch_result \<Rightarrow> error + jsval" where
  "fetch_attempt eng countryName fetched_result =
     (case fetched_result of
        Rejected msg \<Rightarrow> Inl (Error msg)
      | Fulfilled response \<Rightarrow>
          if status response = 404 then Inl (Error (not_found_message countryName))
          else if \<not> ok response then
            Inl (Error (''API Error: '' @ show_nat (status response) @ '' - ''
                          @ statusText response))
          else
            (case json response of
               Inl msg \<Rightarrow> Inl (Error msg)
             | Inr data \<Rightarrow>
                 bind (if truthy data then bind (get data ''length'') (gt_zero eng)
                       else Inr False) (\<lambda>nonempty.
                 if nonempty then index data 0
                 else Inl (Error ''No data returned from API''))))"

definition fetch_recover :: "engine \<Rightarrow> error \<Rightarrow> error" where
  "fetch_recover eng error =
     (if String_includes (message eng error) ''Failed to fetch''
      then Error network_error_message
      else error)"

definition fetchCountryData :: "engine \<Rightarrow> network \<Rightarrow> string \<Rightarrow> page \<Rightarrow> (error + jsval) \<times> page" where
  "fetchCountryData eng net countryName p =
     (let encodedName = encodeURIComponent countryName;
          apiUrl = ''https://restcountries.com/v3.1/name/'' @ encodedName;
          p' = p\<lparr>fetched := fetched p @ [apiUrl]\<rparr>
      in (case fetch_attempt eng countryName (net apiUrl) of
            Inl error \<Rightarrow> Inl (fetch_recover eng error)
          | Inr countryData \<Rightarrow> Inr countryData,
          p'))"

subsection \<open>UI update functions\<close>

text \<open>
  \<^verbatim>\<open>
  function createBadge(text) {
      const badge = document.createElement('span');
      badge.className = 'px-4 py-2 rounded-lg text-sm font-medium';
      badge.style.background = 'linear-gradient(135deg, var(--accent-primary), var(--accent-secondary))';
      badge.style.color = 'white';
      badge.textContent = text;
      return badge;
  }
  \<close>
\<close>

definition createBadge :: "jsval \<Rightarrow> error + badge" where
  "createBadge text =
     bind (text_of text) (\<lambda>t.
     Inr \<lparr>className = ''px-4 py-2 rounded-lg text-sm font-medium'',
          style_background =
            ''linear-gradient(135deg, var(--accent-primary), var(--accent-secondary))'',
          style_color = ''white'',
          textContent = t\<rparr>)"

text \<open>
  \<open>displayCountryInfo_body\<close> is the body of the source function, statement by statement,
  each with the line of \<^verbatim>\<open>app.js\<close> it comes from; \<open>displayCountryInfo\<close> runs it. A
  property read has no effect, so where the source reads the same property twice in one
  statement it is read once here.
\<close>

definition displayCountryInfo_body :: "engine \<Rightarrow> jsval \<Rightarrow> stmt list" where
  "displayCountryInfo_body eng country = [
     \<comment> \<open>150: \<^verbatim>\<open>console.log(..., country.name.common)\<close>\<close>
     assign (\<lambda>v p. p)
       (bind (get country ''name'') (\<lambda>name. get name ''common'')),
     \<comment> \<open>153: \<^verbatim>\<open>countryFlag.src = country.flags.svg\<close>\<close>
     assign (\<lambda>v p. p\<lparr>countryFlag_src := v\<rparr>)
       (bind (get country ''flags'') (\<lambda>flags. bind (get flags ''svg'') ToString)),
     \<comment> \<open>154: \<^verbatim>\<open>countryFlag.alt = `Flag of ${country.name.common}`\<close>\<close>
     assign (\<lambda>v p. p\<lparr>countryFlag_alt := v\<rparr>)
       (bind (get country ''name'') (\<lambda>name. bind (get name ''common'') (\<lambda>common.
        bind (ToString common) (\<lambda>s. Inr (''Flag of '' @ s))))),
     \<comment> \<open>157: \<^verbatim>\<open>countryName.textContent = country.name.common\<close>\<close>
     assign (\<lambda>v p. p\<lparr>countryName_text := v\<rparr>)
       (bind (get country ''name'') (\<lambda>name. bind (get name ''common'') text_of)),
     \<comment> \<open>158: \<^verbatim>\<open>officialName.textContent = country.name.official\<close>\<close>
     assign (\<lambda>v p. p\<lparr>officialName_text := v\<rparr>)
       (bind (get country ''name'') (\<lambda>name. bind (get name ''official'') text_of)),
     \<comment> \<open>159: \<^verbatim>\<open>capital.textContent = country.capital ? country.capital[0] : 'Not available'\<close>\<close>
     assign (\<lambda>v p. p\<lparr>capital_text := v\<rparr>)
       (bind (get country ''capital'') (\<lambda>capital.
        bind (if truthy capital then index capital 0 else Inr (Str ''Not available''))
          text_of)),
     \<comment> \<open>160: \<^verbatim>\<open>region.textContent =
           `${country.region}${country.subregion ? ' - ' + country.subregion : ''}`\<close>\<close>
     assign (\<lambda>v p. p\<lparr>region_text := v\<rparr>)
       (bind (get country ''region'') (\<lambda>region. bind (ToString region) (\<lambda>r.
        bind (get country ''subregion'') (\<lambda>subregion.
        bind (if truthy subregion then bind (ToString subregion) (\<lambda>s. Inr ('' - '' @ s))
              else Inr []) (\<lambda>rest.
        Inr (r @ rest)))))),
     \<comment> \<open>163: \<^verbatim>\<open>population.textContent = formatNumber(country.population)\<close>\<close>
     assign (\<lambda>v p. p\<lparr>population_text := v\<rparr>)
       (bind (get country ''population'') (formatNumber eng)),
     \<comment> \<open>164: \<^verbatim>\<open>area.textContent = `${formatNumber(country.area)} km2`\<close>, the last
         character being the superscript two, code unit 178\<close>
     assign (\<lambda>v p. p\<lparr>area_text := v\<rparr>)
       (bind (get country ''area'') (\<lambda>area. bind (formatNumber eng area) (\<lambda>s.
        Inr (s @ '' km'' @ [CHR 0xB2])))),
     \<comment> \<open>165: \<^verbatim>\<open>currencies.textContent = getCurrencies(country.currencies)\<close>\<close>
     assign (\<lambda>v p. p\<lparr>currencies_text := v\<rparr>)
       (bind (get country ''currencies'') getCurrencies),
     \<comment> \<open>169: \<^verbatim>\<open>languagesContainer.innerHTML = ''\<close>\<close>
     (\<lambda>p. (None, p\<lparr>languages_badges := []\<rparr>)),
     \<comment> \<open>170-172: \<^verbatim>\<open>getLanguages(country.languages).forEach(lang =>
           languagesContainer.appendChild(createBadge(lang)))\<close>\<close>
     (\<lambda>p. case bind (get country ''languages'') getLanguages of
            Inl err \<Rightarrow> (Some err, p)
          | Inr langs \<Rightarrow>
              run (map (\<lambda>lang. assign (\<lambda>b p. p\<lparr>languages_badges := languages_badges p @ [b]\<rparr>)
                                  (createBadge lang)) langs) p),
     \<comment> \<open>176: \<^verbatim>\<open>domainsContainer.innerHTML = ''\<close>\<close>
     (\<lambda>p. (None, p\<lparr>domains_badges := []\<rparr>)),
     \<comment> \<open>177-180: \<^verbatim>\<open>const domains = country.tld || ['Not available'];
           domains.forEach(domain => domainsContainer.appendChild(createBadge(domain)))\<close>\<close>
     (\<lambda>p. case get country ''tld'' of
            Inl err \<Rightarrow> (Some err, p)
          | Inr tld \<Rightarrow>
              call_forEach (if truthy tld then tld else Arr [Str ''Not available''])
                (\<lambda>domain. assign (\<lambda>b p. p\<lparr>domains_badges := domains_badges p @ [b]\<rparr>)
                            (createBadge domain)) p),
     \<comment> \<open>183-186: \<^verbatim>\<open>const lat = country.latlng[0]; const lng = country.latlng[1];
           countryMap.src = `https://maps.google.com/maps?q=${lat},${lng}&z=5&output=embed`\<close>\<close>
     assign (\<lambda>v p. p\<lparr>countryMap_src := v\<rparr>)
       (bind (get country ''latlng'') (\<lambda>latlng.
        bind (index latlng 0) (\<lambda>lat. bind (index latlng 1) (\<lambda>lng.
        bind (ToString lat) (\<lambda>a. bind (ToString lng) (\<lambda>b.
        Inr (''https://maps.google.com/maps?q='' @ a @ '','' @ b @ ''&z=5&output=embed''))))))),
     \<comment> \<open>189: \<^verbatim>\<open>timezones.textContent = country.timezones.join(', ')\<close>\<close>
     assign (\<lambda>v p. p\<lparr>timezones_text := v\<rparr>)
       (bind (get country ''timezones'') (\<lambda>timezones. call_join timezones '', '')),
     \<comment> \<open>190: \<^verbatim>\<open>continent.textContent =
           country.continents ? country.continents[0] : 'Not available'\<close>\<close>
     assign (\<lambda>v p. p\<lparr>continent_text := v\<rparr>)
       (bind (get country ''continents'') (\<lambda>continents.
        bind (if truthy continents then index continents 0 else Inr (Str ''Not available''))
          text_of)),
     \<comment> \<open>192-194: \<^verbatim>\<open>const callingCode = country.idd.root ?
           `${country.idd.root}${country.idd.suffixes ? country.idd.suffixes[0] : ''}`
           : 'Not available'; callingCode.textContent = callingCode\<close>\<close>
     assign (\<lambda>v p. p\<lparr>callingCode_text := v\<rparr>)
       (bind (get country ''idd'') (\<lambda>idd. bind (get idd ''root'') (\<lambda>root.
        if truthy root then
          bind (ToString root) (\<lambda>r. bind (get idd ''suffixes'') (\<lambda>suffixes.
          bind (if truthy suffixes then bind (index suffixes 0) ToString else Inr [])
            (\<lambda>s. Inr (r @ s))))
        else Inr ''Not available''))),
     \<comment> \<open>196-197: \<^verbatim>\<open>borders.textContent = country.borders ?
           `${country.borders.length} countries` : 'None (island/isolated)'\<close>\<close>
     assign (\<lambda>v p. p\<lparr>borders_text := v\<rparr>)
       (bind (get country ''borders'') (\<lambda>borders.
        if truthy borders then
          bind (get borders ''length'') (\<lambda>n. bind (ToString n) (\<lambda>s. Inr (s @ '' countries'')))
        else Inr ''None (island/isolated)'')),
     \<comment> \<open>199: \<^verbatim>\<open>independent.textContent = country.independent ? 'Yes' : 'No'\<close>\<close>
     assign (\<lambda>v p. p\<lparr>independent_text := v\<rparr>)
       (bind (get country ''independent'') (\<lambda>independent.
        Inr (if truthy independent then ''Yes'' else ''No''))),
     \<comment> \<open>200: \<^verbatim>\<open>unMember.textContent = country.unMember ? 'Yes' : 'No'\<close>\<close>
     assign (\<lambda>v p. p\<lparr>unMember_text := v\<rparr>)
       (bind (get country ''unMember'') (\<lambda>unMember.
        Inr (if truthy unMember then ''Yes'' else ''No'')))
   ]"

definition displayCountryInfo :: "engine \<Rightarrow> jsval \<Rightarrow> stmt" where
  "displayCountryInfo eng country = run (displayCountryInfo_body eng country)"

text \<open>
  \<^verbatim>\<open>
  function showLoading() {
      document.getElementById('loadingState').classList.remove('hidden');
      document.getElementById('resultsContainer').classList.add('hidden');
      document.getElementById('errorMessage').classList.add('hidden');
  }
  function showResults() {
      document.getElementById('loadingState').classList.add('hidden');
      document.getElementById('resultsContainer').classList.remove('hidden');
      document.getElementById('errorMessage').classList.add('hidden');
      document.getElementById('resultsContainer').scrollIntoView({ behavior: 'smooth', block: 'start' });
  }
  function showError(message) {
      const errorDiv = document.getElementById('errorMessage');
      errorDiv.querySelector('p').textContent = message;
      errorDiv.classList.remove('hidden');
      document.getElementById('loadingState').classList.add('hidden');
      document.getElementById('resultsContainer').classList.add('hidden');
  }
  \<close>
\<close>

definition showLoading :: "page \<Rightarrow> page" where
  "showLoading p =
     p\<lparr>loadingState_hidden := False, resultsContainer_hidden := True,
       errorMessage_hidden := True\<rparr>"

definition showResults :: "page \<Rightarrow> page" where
  "showResults p =
     p\<lparr>loadingState_hidden := True, resultsContainer_hidden := False,
       errorMessage_hidden := True,
       resultsContainer_scrolls := Suc (resultsContainer_scrolls p)\<rparr>"

definition showError :: "string \<Rightarrow> page \<Rightarrow> page" where
  "showError msg p =
     p\<lparr>errorMessage_text := msg, errorMessage_hidden := False,
       loadingState_hidden := True, resultsContainer_hidden := True\<rparr>"

subsection \<open>Main search function\<close>

text \<open>
  \<^verbatim>\<open>
  async function searchCountry() {
      const countryName = document.getElementById('countryInput').value.trim();
      if (!countryName) {
          showError('Please enter a country name');
          return;
      }
      showLoading();
      try {
          const countryData = await fetchCountryData(countryName);
          displayCountryInfo(countryData);
          showResults();
      } catch (error) {
          showError(error.message);
      }
  }
  \<close>
  One search is followed from the click to the settlement of its promise, with the network's
  answer taken from \<open>net\<close>; events that arrive while the request is in flight are not part
  of the model.
\<close>

definition searchCountry :: "engine \<Rightarrow> network \<Rightarrow> page \<Rightarrow> page" where
  "searchCountry eng net p =
     (let countryName = trim (countryInput_value p) in
      if countryName = [] then showError ''Please enter a country name'' p
      else
        (case fetchCountryData eng net countryName (showLoading p) of
           (Inl error, p1) \<Rightarrow> showError (message eng error) p1
         | (Inr countryData, p1) \<Rightarrow>
             (case displayCountryInfo eng countryData p1 of
                (Some error, p2) \<Rightarrow> showError (message eng error) p2
              | (None, p2) \<Rightarrow> showResults p2)))"

text \<open>
  The three display regions and the ones a page shows: a region is visible when its
  element does not carry the class \<^verbatim>\<open>hidden\<close>.
\<close>

datatype region = LoadingRegion | ResultsRegion | ErrorRegion

definition visible :: "page \<Rightarrow> region \<Rightarrow> bool" where
  "visible p r =
     (case r of
        LoadingRegion \<Rightarrow> \<not> loadingState_hidden p
      | ResultsRegion \<Rightarrow> \<not> resultsContainer_hidden p
      | ErrorRegion \<Rightarrow> \<not> errorMessage_hidden p)"

subsection \<open>The data model of the specification\<close>

text \<open>
  The specification describes a currency as a name with an optional symbol, and the
  currency formatter in these words: a comma-joined string of \<^verbatim>\<open>"Name (Symbol)"\<close> (symbol
  omitted if absent) per currency, or \<^verbatim>\<open>"Not available"\<close> if absent.
  \<open>formatCurrencies_spec\<close> follows those words on typed data; \<open>currency_view\<close> reads a JSON
  value as such a currency (a symbol that is \<^verbatim>\<open>undefined\<close> or \<^verbatim>\<open>null\<close> is absent).
\<close>

type_synonym currency = "string \<times> string option"

definition formatCurrency_spec :: "currency \<Rightarrow> string" where
  "formatCurrency_spec c =
     (case c of (n, Some s) \<Rightarrow> n @ '' ('' @ s @ '')'' | (n, None) \<Rightarrow> n)"

definition formatCurrencies_spec :: "currency list option \<Rightarrow> string" where
  "formatCurrencies_spec cs =
     (case cs of None \<Rightarrow> ''Not available''
      | Some l \<Rightarrow> join_with '', '' (map formatCurrency_spec l))"

text \<open>
  The entry of one currency with the one difference the code makes: a symbol that is the
  empty string is left out like an absent one.
\<close>

definition formatCurrency_nonempty :: "currency \<Rightarrow> string" where
  "formatCurrency_nonempty c =
     (case c of
        (n, Some s) \<Rightarrow> if s = [] then n else n @ '' ('' @ s @ '')''
      | (n, None) \<Rightarrow> n)"

definition currency_view :: "jsval \<Rightarrow> currency option" where
  "currency_view v =
     (case get v ''name'' of
        Inr (Str n) \<Rightarrow>
          (case get v ''symbol'' of
             Inr (Str s) \<Rightarrow> Some (n, Some s)
           | Inr Undefined \<Rightarrow> Some (n, None)
           | Inr Null \<Rightarrow> Some (n, None)
           | _ \<Rightarrow> None)
      | _ \<Rightarrow> None)"

text \<open>
  A country record with the types of the specification's data model, in which everything
  that the specification names as the precondition of \<^verbatim>\<open>displayCountryInfo\<close> is present:
  \<^verbatim>\<open>name\<close> with \<^verbatim>\<open>common\<close> and \<^verbatim>\<open>official\<close>, \<^verbatim>\<open>flags\<close> with \<^verbatim>\<open>svg\<close>, \<^verbatim>\<open>region\<close>,
  \<^verbatim>\<open>population\<close>, \<^verbatim>\<open>area\<close>, \<^verbatim>\<open>latlng\<close> with at least two coordinates, \<^verbatim>\<open>timezones\<close>
  and \<^verbatim>\<open>idd\<close>. The fields that the function guards are optional: absent, or of their
  type. A number is a value that the language's numbers hold: a safe integer, the negative
  zero, or a number given by its text.
\<close>

fun is_Str :: "jsval \<Rightarrow> bool" where
  "is_Str (Str s) = True"
| "is_Str v = False"

fun is_number :: "jsval \<Rightarrow> bool" where
  "is_number (Num i) = safe_integer i"
| "is_number NegZero = True"
| "is_number (Frac s) = True"
| "is_number v = False"

fun str_list :: "jsval \<Rightarrow> bool" where
  "str_list (Arr xs) = list_all is_Str xs"
| "str_list v = False"

fun str_map :: "jsval \<Rightarrow> bool" where
  "str_map (Obj kvs) = list_all (\<lambda>kv. is_Str (snd kv)) kvs"
| "str_map v = False"

fun currency_map :: "jsval \<Rightarrow> bool" where
  "currency_map (Obj kvs) = list_all (\<lambda>kv. currency_view (snd kv) \<noteq> None) kvs"
| "currency_map v = False"

definition optional :: "(jsval \<Rightarrow> bool) \<Rightarrow> jsval \<Rightarrow> bool" where
  "optional P v = (nullish v \<or> P v)"

fun name_ok :: "jsval \<Rightarrow> bool" where
  "name_ok (Obj n) = (is_Str (lookup n ''common'') \<and> is_Str (lookup n ''official''))"
| "name_ok v = False"

fun flags_ok :: "jsval \<Rightarrow> bool" where
  "flags_ok (Obj f) = is_Str (lookup f ''svg'')"
| "flags_ok v = False"

fun latlng_ok :: "jsval \<Rightarrow> bool" where
  "latlng_ok (Arr xs) = (2 \<le> length xs \<and> list_all is_number xs)"
| "latlng_ok v = False"

fun idd_ok :: "jsval \<Rightarrow> bool" where
  "idd_ok (Obj i) = (optional is_Str (lookup i ''root'') \<and> optional str_list (lookup i ''suffixes''))"
| "idd_ok v = False"

definition country_record :: "(string \<times> jsval) list \<Rightarrow> bool" where
  "country_record kvs =
     (name_ok (lookup kvs ''name'') \<and>
      flags_ok (lookup kvs ''flags'') \<and>
      is_Str (lookup kvs ''region'') \<and>
      is_number (lookup kvs ''population'') \<and>
      is_number (lookup kvs ''area'') \<and>
      latlng_ok (lookup kvs ''latlng'') \<and>
      str_list (lookup kvs ''timezones'') \<and>
      idd_ok (lookup kvs ''idd'') \<and>
      optional str_list (lookup kvs ''capital'') \<and>
      optional is_Str (lookup kvs ''subregion'') \<and>
      optional currency_map (lookup kvs ''currencies'') \<and>
      optional str_map (lookup kvs ''languages'') \<and>
      optional str_list (lookup kvs ''tld'') \<and>
      optional str_list (lookup kvs ''continents'') \<and>
      optional str_list (lookup kvs ''borders''))"

text \<open>
  A record of the data model's types, with nothing required: every field, the inner fields
  of \<^verbatim>\<open>name\<close>, \<^verbatim>\<open>flags\<close> and \<^verbatim>\<open>idd\<close> included, is absent or of its type, and
  \<^verbatim>\<open>latlng\<close> is a list of numbers of any length. \<open>containers\<close> are the seven fields that
  \<^verbatim>\<open>displayCountryInfo\<close> dereferences or calls a method on.
\<close>

fun name_typed :: "jsval \<Rightarrow> bool" where
  "name_typed (Obj n) =
     (optional is_Str (lookup n ''common'') \<and> optional is_Str (lookup n ''official''))"
| "name_typed v = False"

fun flags_typed :: "jsval \<Rightarrow> bool" where
  "flags_typed (Obj f) = optional is_Str (lookup f ''svg'')"
| "flags_typed v = False"

fun number_list :: "jsval \<Rightarrow> bool" where
  "number_list (Arr xs) = list_all is_number xs"
| "number_list v = False"

definition typed_record :: "(string \<times> jsval) list \<Rightarrow> bool" where
  "typed_record kvs =
     (optional name_typed (lookup kvs ''name'') \<and>
      optional flags_typed (lookup kvs ''flags'') \<and>
      optional is_Str (lookup kvs ''region'') \<and>
      optional is_number (lookup kvs ''population'') \<and>
      optional is_number (lookup kvs ''area'') \<and>
      optional number_list (lookup kvs ''latlng'') \<and>
      optional str_list (lookup kvs ''timezones'') \<and>
      optional idd_ok (lookup kvs ''idd'') \<and>
      optional str_list (lookup kvs ''capital'') \<and>
      optional is_Str (lookup kvs ''subregion'') \<and>
      optional currency_map (lookup kvs ''currencies'') \<and>
      optional str_map (lookup kvs ''languages'') \<and>
      optional str_list (lookup kvs ''tld'') \<and>
      optional str_list (lookup kvs ''continents'') \<and>
      optional str_list (lookup kvs ''borders''))"

definition containers :: "string list" where
  "containers =
     [''name'', ''flags'', ''population'', ''area'', ''latlng'', ''timezones'', ''idd'']"

definition containers_present :: "(string \<times> jsval) list \<Rightarrow> bool" where
  "containers_present kvs = list_all (\<lambda>field. \<not> nullish (lookup kvs field)) containers"

text \<open>What it means for a statement to leave a field alone, to complete, and to throw.\<close>

definition preserves :: "(page \<Rightarrow> 'a) \<Rightarrow> stmt \<Rightarrow> bool" where
  "preserves f s = (\<forall>p. f (snd (s p)) = f p)"

definition completes :: "stmt \<Rightarrow> bool" where
  "completes s = (\<forall>p. fst (s p) = None)"


subsection \<open>Example data\<close>

text \<open>
  A page before any search, an engine, three networks and three records, for evaluating
  the functions on concrete inputs. \<open>iceland_no_borders\<close> is a record whose border list
  is present and empty; \<open>bare_record\<close> has the seven containers that
  \<^verbatim>\<open>displayCountryInfo\<close> dereferences and nothing inside them.
\<close>

definition example_page :: page where
  "example_page =
     \<lparr>data_theme = None, localStorage = Map.empty, sunIcon_hidden = False,
      moonIcon_hidden = True, countryInput_value = [], loadingState_hidden = True,
      resultsContainer_hidden = True, resultsContainer_scrolls = 0,
      errorMessage_hidden = True, errorMessage_text = [], countryFlag_src = [],
      countryFlag_alt = [], countryName_text = [], officialName_text = [],
      capital_text = [], region_text = [], population_text = [], area_text = [],
      currencies_text = [], languages_badges = [], domains_badges = [], countryMap_src = [],
      timezones_text = [], continent_text = [], callingCode_text = [], borders_text = [],
      independent_text = [], unMember_text = [], fetched = []\<rparr>"

definition example_engine :: engine where
  "example_engine =
     \<lparr>type_error_message = (\<lambda>c. ''TypeError''), string_positive = (\<lambda>s. False),
      fraction_locale_string = (\<lambda>s. s)\<rparr>"

definition not_found_network :: network where
  "not_found_network =
     (\<lambda>url. Fulfilled \<lparr>status = 404, statusText = ''Not Found'',
        json = Inr (Obj [(''status'', Num 404), (''message'', Str ''Not Found'')])\<rparr>)"

definition france :: "(string \<times> jsval) list" where
  "france =
     [(''name'', Obj [(''common'', Str ''France''), (''official'', Str ''French Republic'')]),
      (''tld'', Arr [Str ''.fr'']),
      (''independent'', Bool True),
      (''unMember'', Bool True),
      (''currencies'', Obj [(''EUR'', Obj [(''name'', Str ''Euro''), (''symbol'', Str ''E'')])]),
      (''idd'', Obj [(''root'', Str ''+3''), (''suffixes'', Arr [Str ''3''])]),
      (''capital'', Arr [Str ''Paris'']),
      (''region'', Str ''Europe''),
      (''subregion'', Str ''Western Europe''),
      (''languages'', Obj [(''fra'', Str ''French'')]),
      (''latlng'', Arr [Num 46, Num 2]),
      (''borders'', Arr [Str ''AND'', Str ''BEL'', Str ''DEU'', Str ''ITA'', Str ''LUX'',
                         Str ''MCO'', Str ''ESP'', Str ''CHE'']),
      (''area'', Num 551695),
      (''population'', Num 67391582),
      (''timezones'', Arr [Str ''UTC+01:00'']),
      (''continents'', Arr [Str ''Europe'']),
      (''flags'', Obj [(''svg'', Str ''https://flagcdn.com/fr.svg'')])]"

definition iceland_no_borders :: "(string \<times> jsval) list" where
  "iceland_no_borders =
     [(''name'', Obj [(''common'', Str ''Iceland''), (''official'', Str ''Iceland'')]),
      (''idd'', Obj [(''root'', Str ''+3''), (''suffixes'', Arr [Str ''54''])]),
      (''region'', Str ''Europe''),
      (''latlng'', Arr [Num 65, Num (- 18)]),
      (''borders'', Arr []),
      (''area'', Num 103000),
      (''population'', Num 366425),
      (''timezones'', Arr [Str ''UTC'']),
      (''flags'', Obj [(''svg'', Str ''https://flagcdn.com/is.svg'')])]"

definition bare_record :: "(string \<times> jsval) list" where
  "bare_record =
     [(''name'', Obj []), (''flags'', Obj []), (''population'', Num 0), (''area'', Num 0),
      (''latlng'', Arr []), (''timezones'', Arr []), (''idd'', Obj [])]"

definition one_match_network :: "jsval \<Rightarrow> network" where
  "one_match_network country =
     (\<lambda>url. Fulfilled \<lparr>status = 200, statusText = ''OK'', json = Inr (Arr [country])\<rparr>)"

definition no_match_network :: network where
  "no_match_network =
     (\<lambda>url. Fulfilled \<lparr>status = 200, statusText = ''OK'', json = Inr (Arr [])\<rparr>)"


section \<open>Properties\<close>

subsection \<open>Sequences of statements\<close>

lemma run_completes: "list_all completes ss \<Longrightarrow> completes (run ss)"
  unfolding completes_def
proof (induction ss)
  case Nil
  then show ?case by simp
next
  case (Cons s ss)
  show ?case
  proof
    fix p
    from Cons.prems have "fst (s p) = None" by simp
    then obtain p' where "s p = (None, p')" by (cases "s p") simp
    with Cons show "fst (run (s # ss) p) = None" by simp
  qed
qed

lemma run_preserves: "list_all (preserves f) ss \<Longrightarrow> preserves f (run ss)"
  unfolding preserves_def
proof (induction ss)
  case Nil
  then show ?case by simp
next
  case (Cons s ss)
  show ?case
  proof
    fix p
    from Cons.prems have s: "f (snd (s p)) = f p" by simp
    from Cons have r: "f (snd (run ss (snd (s p)))) = f (snd (s p))" by simp
    show "f (snd (run (s # ss) p)) = f p"
      using s r by (cases "s p") (auto split: option.splits)
  qed
qed


lemma run_Cons_None:
  "run (s # ss) q = (None, p') \<Longrightarrow> \<exists>q'. s q = (None, q') \<and> run ss q' = (None, p')"
  by (cases "s q") (auto split: option.splits)

lemma run_drop: "run ss p = (None, p') \<Longrightarrow> \<exists>q. run (drop k ss) q = (None, p')"
proof (induction ss arbitrary: p k)
  case Nil
  then show ?case by auto
next
  case (Cons s ss)
  show ?case
  proof (cases k)
    case 0
    with Cons.prems show ?thesis by auto
  next
    case (Suc j)
    from run_Cons_None [OF Cons.prems] obtain q' where "run ss q' = (None, p')"
      by blast
    with Cons.IH [of q' j] Suc show ?thesis by simp
  qed
qed

text \<open>
  When a run completes, the value of a field at the end is the value it had right after
  the last statement that may write it.
\<close>

lemma run_field:
  assumes "run ss p = (None, p')" and "k < length ss"
    and "list_all (preserves f) (drop (Suc k) ss)"
  shows "\<exists>q q'. (ss ! k) q = (None, q') \<and> f p' = f q'"
proof -
  from run_drop [OF assms(1), of k] obtain q where "run (drop k ss) q = (None, p')"
    by blast
  with assms(2) have "run (ss ! k # drop (Suc k) ss) q = (None, p')"
    by (simp add: Cons_nth_drop_Suc)
  from run_Cons_None [OF this] obtain q' where k: "(ss ! k) q = (None, q')"
    and rest: "run (drop (Suc k) ss) q' = (None, p')"
    by blast
  from run_preserves [OF assms(3)] have "f (snd (run (drop (Suc k) ss) q')) = f q'"
    by (simp add: preserves_def)
  with rest have "f p' = f q'" by simp
  with k show ?thesis by blast
qed


lemma assign_Inr_completes: "completes (assign store (Inr v))"
  by (simp add: completes_def assign_def)

lemma assign_None: "assign store e q = (None, q') \<Longrightarrow> \<exists>v. e = Inr v \<and> q' = store v q"
  by (cases e) (simp_all add: assign_def)

lemma assign_snd_preserved:
  "(\<And>v p. f (store v p) = f p) \<Longrightarrow> f (snd (assign store e q)) = f q"
  by (cases e) (simp_all add: assign_def)

lemma run_map_preserved:
  assumes "\<And>x q. f (snd (g x q)) = f q"
  shows "f (snd (run (map g xs) p)) = f p"
proof -
  have "list_all (preserves f) (map g xs)"
    using assms by (simp add: list_all_iff preserves_def)
  from run_preserves [OF this] show ?thesis by (simp add: preserves_def)
qed

lemma call_forEach_preserved:
  assumes "\<And>x q. f (snd (g x q)) = f q"
  shows "f (snd (call_forEach v g p)) = f p"
  using run_map_preserved [of f g, OF assms] by (cases v) simp_all

lemmas preserved = preserves_def assign_snd_preserved run_map_preserved call_forEach_preserved

subsection \<open>Strings\<close>

lemma trim_empty_iff: "trim s = [] \<longleftrightarrow> (\<forall>c\<in>set s. whitespace c)"
proof
  assume "trim s = []"
  then have all: "\<forall>c\<in>set (dropWhile whitespace s). whitespace c"
    by (simp add: trim_def)
  have "dropWhile whitespace s = []"
  proof (rule ccontr)
    assume ne: "dropWhile whitespace s \<noteq> []"
    then have "\<not> whitespace (hd (dropWhile whitespace s))"
      by (rule hd_dropWhile)
    moreover have "hd (dropWhile whitespace s) \<in> set (dropWhile whitespace s)"
      using ne by simp
    ultimately show False using all by blast
  qed
  then show "\<forall>c\<in>set s. whitespace c"
    by simp
next
  assume "\<forall>c\<in>set s. whitespace c"
  then have d: "dropWhile whitespace s = []"
    by simp
  show "trim s = []"
    unfolding trim_def d by simp
qed

text \<open>A text that holds a character foreign to \<open>t\<close> holds \<open>t\<close> on one side of it.\<close>

lemma sublist_around:
  assumes "q \<notin> set t" and "sublist t (xs @ q # ys)"
  shows "sublist t xs \<or> sublist t ys"
  using assms
proof (induction xs)
  case Nil
  then show ?case
    by (cases t) (auto simp add: sublist_Cons_right)
next
  case (Cons x xs)
  from Cons.prems(2) have "prefix t ((x # xs) @ q # ys) \<or> sublist t (xs @ q # ys)"
    by (simp add: sublist_Cons_right)
  then show ?case
  proof
    assume "prefix t ((x # xs) @ q # ys)"
    then have "prefix t (x # xs) \<or> (\<exists>us. t = (x # xs) @ us \<and> prefix us (q # ys))"
      by (simp only: prefix_append)
    then show ?thesis
    proof
      assume "prefix t (x # xs)"
      then show ?thesis by (auto dest: prefix_imp_sublist)
    next
      assume "\<exists>us. t = (x # xs) @ us \<and> prefix us (q # ys)"
      then obtain us where t: "t = (x # xs) @ us" and us: "prefix us (q # ys)" by blast
      from Cons.prems(1) t have "q \<notin> set us" by simp
      with us have "us = []" by (cases us) auto
      with t show ?thesis by simp
    qed
  next
    assume "sublist t (xs @ q # ys)"
    with Cons.IH Cons.prems(1) have "sublist t xs \<or> sublist t ys" by blast
    then show ?thesis by (auto simp add: sublist_Cons_right)
  qed
qed

lemma ToStrings_Str: "ToStrings (map Str ss) = Inr ss"
  by (induction ss) (simp_all add: bind_def nullish_def)

lemma is_Str_conv: "is_Str v \<longleftrightarrow> (\<exists>s. v = Str s)"
  by (cases v) simp_all

lemma ToStrings_Str_list: "list_all is_Str xs \<Longrightarrow> \<exists>ss. ToStrings xs = Inr ss"
proof (induction xs)
  case Nil
  then show ?case by simp
next
  case (Cons x xs)
  then obtain s ss where "x = Str s" and "ToStrings xs = Inr ss"
    by (auto simp add: is_Str_conv)
  then show ?case by (simp add: bind_def nullish_def)
qed

lemma is_number_ToString: "is_number v \<Longrightarrow> \<exists>s. ToString v = Inr s"
  by (cases v) simp_all

lemma is_number_formatNumber: "is_number v \<Longrightarrow> \<exists>s. formatNumber eng v = Inr s"
  by (cases v) (simp_all add: formatNumber_def)

subsection \<open>Language extraction\<close>

lemma getLanguages_returns: "\<exists>xs. getLanguages v = Inr xs"
  by (cases v) (simp_all add: getLanguages_def)

text \<open>
  C1, as stated, fails at the empty map: an empty object is truthy, so the guard
  \<^verbatim>\<open>!languages\<close> does not fire and \<^verbatim>\<open>Object.values({})\<close> is the empty list, not the
  fallback list.
\<close>

theorem getLanguages_empty_map_counterexample:
  "getLanguages (Obj []) = Inr [] \<and> getLanguages (Obj []) \<noteq> Inr [Str ''Not available'']"
  by (simp add: getLanguages_def)

text \<open>
  C1 (amended): for an absent languages map (\<^verbatim>\<open>undefined\<close> or \<^verbatim>\<open>null\<close>) the language
  extraction returns the single-element fallback list \<^verbatim>\<open>["Not available"]\<close>; for every
  map that is present, empty or not, it returns the map's value strings in the map's
  iteration order, so the empty map gives the empty list.
\<close>

theorem getLanguages_absent_or_values:
  "(nullish languages \<longrightarrow> getLanguages languages = Inr [Str ''Not available'']) \<and>
   getLanguages (Obj kvs) = Inr (map snd kvs)"
  by (auto simp add: getLanguages_def nullish_def)

theorem getLanguages_absent_or_values_witness:
  "nullish Undefined \<and> getLanguages Undefined = Inr [Str ''Not available''] \<and>
   getLanguages (Obj [(''eng'', Str ''English''), (''fra'', Str ''French'')])
     = Inr [Str ''English'', Str ''French'']"
  using getLanguages_absent_or_values
    [of Undefined "[(''eng'', Str ''English''), (''fra'', Str ''French'')]"]
  by (simp add: nullish_def)

subsection \<open>Currency formatting\<close>

lemma currency_entry_view:
  "currency_view v = Some c \<Longrightarrow> currency_entry v = Inr (Str (formatCurrency_nonempty c))"
  by (cases v)
    (auto simp add: currency_view_def currency_entry_def formatCurrency_nonempty_def bind_def
      split: sum.splits jsval.splits)

lemma currency_entry_returns:
  "currency_view v \<noteq> None \<Longrightarrow> \<exists>s. currency_entry v = Inr (Str s)"
  using currency_entry_view [of v] by auto

lemma Array_map_currency_entry:
  "list_all2 (\<lambda>v c. currency_view v = Some c) vs cs \<Longrightarrow>
   Array_map currency_entry vs = Inr (map Str (map formatCurrency_nonempty cs))"
proof (induction vs cs rule: list_all2_induct)
  case Nil
  then show ?case by simp
next
  case (Cons v vs c cs)
  then show ?case by (simp add: currency_entry_view bind_def)
qed

lemma formatCurrency_nonempty_spec:
  "snd c \<noteq> Some [] \<Longrightarrow> formatCurrency_nonempty c = formatCurrency_spec c"
  by (cases c) (auto simp add: formatCurrency_nonempty_def formatCurrency_spec_def
      split: option.splits)

text \<open>
  C6, as stated, fails at a currency whose symbol is present and is the empty string: the
  arrow function tests \<^verbatim>\<open>curr.symbol\<close> for truthiness, the empty string is falsy, and the
  entry is the name alone, where the formatter of the specification gives the name followed
  by empty parentheses.
\<close>

theorem getCurrencies_empty_symbol_counterexample:
  "currency_view (Obj [(''name'', Str ''US Dollar''), (''symbol'', Str [])])
     = Some (''US Dollar'', Some []) \<and>
   getCurrencies (Obj [(''USD'', Obj [(''name'', Str ''US Dollar''), (''symbol'', Str [])])])
     = Inr ''US Dollar'' \<and>
   formatCurrencies_spec (Some [(''US Dollar'', Some [])]) = ''US Dollar ()'' \<and>
   getCurrencies (Obj [(''USD'', Obj [(''name'', Str ''US Dollar''), (''symbol'', Str [])])])
     \<noteq> Inr (formatCurrencies_spec (Some [(''US Dollar'', Some [])]))"
  by (simp add: getCurrencies_def bind_def Array_join_def currency_entry_def lookup_def
      nullish_def currency_view_def formatCurrencies_spec_def formatCurrency_spec_def)

text \<open>
  C6 (amended): for every absent currencies map (\<^verbatim>\<open>undefined\<close> or \<^verbatim>\<open>null\<close>)
  \<^verbatim>\<open>getCurrencies\<close> returns \<^verbatim>\<open>"Not available"\<close>; for every present map it returns the
  string that joins, with a comma and a space, one entry per currency in the map's order,
  the entry being \<^verbatim>\<open>"Name (Symbol)"\<close> when the symbol is present and is not the empty
  string, and \<^verbatim>\<open>"Name"\<close> when the symbol is absent or is the empty string. The map is
  read as the list \<open>cs\<close> of its currencies, each a name with an optional symbol, with no
  condition on the symbols.
\<close>

theorem getCurrencies_formats:
  "(nullish currencies \<longrightarrow> getCurrencies currencies = Inr ''Not available'') \<and>
   (list_all2 (\<lambda>kv c. currency_view (snd kv) = Some c) kvs cs \<longrightarrow>
      getCurrencies (Obj kvs) = Inr (join_with '', '' (map formatCurrency_nonempty cs)))"
proof (intro conjI impI)
  assume "nullish currencies"
  then show "getCurrencies currencies = Inr ''Not available''"
    by (auto simp add: getCurrencies_def nullish_def)
next
  define entries where "entries = map formatCurrency_nonempty cs"
  assume "list_all2 (\<lambda>kv c. currency_view (snd kv) = Some c) kvs cs"
  then have "list_all2 (\<lambda>v c. currency_view v = Some c) (map snd kvs) cs"
    by (simp add: list_all2_map1)
  then have "Array_map currency_entry (map snd kvs) = Inr (map Str entries)"
    unfolding entries_def by (rule Array_map_currency_entry)
  then have "getCurrencies (Obj kvs) = Inr (join_with '', '' entries)"
    by (simp add: getCurrencies_def bind_def Array_join_def ToStrings_Str)
  then show "getCurrencies (Obj kvs) = Inr (join_with '', '' (map formatCurrency_nonempty cs))"
    by (simp only: entries_def)
qed

theorem getCurrencies_formats_witness:
  "nullish Undefined \<and> getCurrencies Undefined = Inr ''Not available'' \<and>
   getCurrencies (Obj [(''USD'', Obj [(''name'', Str ''US Dollar''), (''symbol'', Str ''$'')])])
     = Inr ''US Dollar ($)'' \<and>
   getCurrencies (Obj [(''USD'', Obj [(''name'', Str ''US Dollar'')])]) = Inr ''US Dollar'' \<and>
   getCurrencies (Obj [(''EUR'', Obj [(''name'', Str ''Euro''), (''symbol'', Str ''E'')]),
                       (''USD'', Obj [(''name'', Str ''US Dollar''), (''symbol'', Str [])])])
     = Inr ''Euro (E), US Dollar''"
proof -
  have a: "nullish Undefined"
    by (simp add: nullish_def)
  have b: "list_all2 (\<lambda>kv c. currency_view (snd kv) = Some c)
             [(''USD'', Obj [(''name'', Str ''US Dollar''), (''symbol'', Str ''$'')])]
             [(''US Dollar'', Some ''$'')]"
    by (simp add: currency_view_def lookup_def)
  have c: "list_all2 (\<lambda>kv c. currency_view (snd kv) = Some c)
             [(''USD'', Obj [(''name'', Str ''US Dollar'')])]
             [(''US Dollar'', None)]"
    by (simp add: currency_view_def lookup_def)
  have d: "list_all2 (\<lambda>kv c. currency_view (snd kv) = Some c)
             [(''EUR'', Obj [(''name'', Str ''Euro''), (''symbol'', Str ''E'')]),
              (''USD'', Obj [(''name'', Str ''US Dollar''), (''symbol'', Str [])])]
             [(''Euro'', Some ''E''), (''US Dollar'', Some [])]"
    by (simp add: currency_view_def lookup_def)
  from a getCurrencies_formats [of Undefined] have "getCurrencies Undefined = Inr ''Not available''"
    by simp
  moreover from b getCurrencies_formats
  have "getCurrencies (Obj [(''USD'', Obj [(''name'', Str ''US Dollar''), (''symbol'', Str ''$'')])])
          = Inr (join_with '', '' (map formatCurrency_nonempty [(''US Dollar'', Some ''$'')]))"
    by blast
  moreover from c getCurrencies_formats
  have "getCurrencies (Obj [(''USD'', Obj [(''name'', Str ''US Dollar'')])])
          = Inr (join_with '', '' (map formatCurrency_nonempty [(''US Dollar'', None)]))"
    by blast
  moreover from d getCurrencies_formats
  have "getCurrencies (Obj [(''EUR'', Obj [(''name'', Str ''Euro''), (''symbol'', Str ''E'')]),
                             (''USD'', Obj [(''name'', Str ''US Dollar''), (''symbol'', Str [])])])
          = Inr (join_with '', ''
                  (map formatCurrency_nonempty [(''Euro'', Some ''E''), (''US Dollar'', Some [])]))"
    by blast
  ultimately show ?thesis
    using a by (simp add: formatCurrency_nonempty_def)
qed

subsection \<open>Theme\<close>

text \<open>
  C7: for every theme \<open>t\<close> in \<^verbatim>\<open>{light, dark}\<close>, toggling twice from a page whose applied
  theme is \<open>t\<close> brings the applied theme back to \<open>t\<close>; and after every \<^verbatim>\<open>setTheme\<close> and
  every \<^verbatim>\<open>toggleTheme\<close> the value stored under the key \<^verbatim>\<open>theme\<close> is the applied theme
  attribute.
\<close>

theorem toggleTheme_twice_and_persisted:
  "(t \<in> {''light'', ''dark''} \<longrightarrow> data_theme p = Some t \<longrightarrow>
      data_theme (toggleTheme (toggleTheme p)) = Some t) \<and>
   localStorage (setTheme theme p) ''theme'' = data_theme (setTheme theme p) \<and>
   localStorage (toggleTheme p) ''theme'' = data_theme (toggleTheme p)"
  by (auto simp add: toggleTheme_def setTheme_def Let_def)

theorem toggleTheme_twice_and_persisted_witness:
  "''light'' \<in> {''light'', ''dark''} \<and>
   data_theme (setTheme ''light'' example_page) = Some ''light'' \<and>
   data_theme (toggleTheme (toggleTheme (setTheme ''light'' example_page))) = Some ''light'' \<and>
   localStorage (toggleTheme (setTheme ''light'' example_page)) ''theme'' = Some ''dark''"
proof -
  have a: "''light'' \<in> {''light'', ''dark''}"
    by simp
  have b: "data_theme (setTheme ''light'' example_page) = Some ''light''"
    by (simp add: setTheme_def Let_def)
  have c: "data_theme (toggleTheme (setTheme ''light'' example_page)) = Some ''dark''"
    by (simp add: toggleTheme_def setTheme_def Let_def)
  from a b c toggleTheme_twice_and_persisted [of "''light''" "setTheme ''light'' example_page"]
  show ?thesis by simp
qed

text \<open>
  C9: \<^verbatim>\<open>toggleTheme\<close> is defined for every value of the theme attribute: when the current
  value is anything but \<^verbatim>\<open>dark\<close>, an absent attribute and an invalid string included, it
  applies \<^verbatim>\<open>dark\<close>; when it is \<^verbatim>\<open>dark\<close> it applies \<^verbatim>\<open>light\<close>; so the applied theme after
  a toggle is always \<^verbatim>\<open>light\<close> or \<^verbatim>\<open>dark\<close>.
\<close>

theorem toggleTheme_total:
  "(data_theme p \<noteq> Some ''dark'' \<longrightarrow> data_theme (toggleTheme p) = Some ''dark'') \<and>
   (data_theme p = Some ''dark'' \<longrightarrow> data_theme (toggleTheme p) = Some ''light'') \<and>
   data_theme (toggleTheme p) \<in> {Some ''light'', Some ''dark''}"
  by (auto simp add: toggleTheme_def setTheme_def Let_def)

theorem toggleTheme_total_witness:
  "data_theme example_page = None \<and>
   data_theme (toggleTheme example_page) = Some ''dark'' \<and>
   data_theme (example_page\<lparr>data_theme := Some ''sepia''\<rparr>) = Some ''sepia'' \<and>
   data_theme (toggleTheme (example_page\<lparr>data_theme := Some ''sepia''\<rparr>)) = Some ''dark'' \<and>
   data_theme (toggleTheme (example_page\<lparr>data_theme := Some ''dark''\<rparr>)) = Some ''light''"
proof -
  have a: "data_theme example_page = None"
    by (simp add: example_page_def)
  from a toggleTheme_total [of example_page]
    toggleTheme_total [of "example_page\<lparr>data_theme := Some ''sepia''\<rparr>"]
    toggleTheme_total [of "example_page\<lparr>data_theme := Some ''dark''\<rparr>"]
  show ?thesis by simp
qed

subsection \<open>View states\<close>

text \<open>
  C8: after each of \<^verbatim>\<open>showLoading\<close>, \<^verbatim>\<open>showResults\<close> and \<^verbatim>\<open>showError\<close>, exactly one of
  the three display regions is visible, the one the function is named after, and the other
  two are hidden.
\<close>

theorem view_states_exclusive:
  "(\<forall>r. visible (showLoading p) r \<longleftrightarrow> r = LoadingRegion) \<and>
   (\<forall>r. visible (showResults p) r \<longleftrightarrow> r = ResultsRegion) \<and>
   (\<forall>r. visible (showError msg p) r \<longleftrightarrow> r = ErrorRegion)"
  by (auto simp add: visible_def showLoading_def showResults_def showError_def
      split: region.splits)

subsection \<open>Empty input\<close>

text \<open>
  C2: for every input that trims to the empty string (by \<open>trim_empty_iff\<close>: the empty
  input and the inputs of white space only), \<^verbatim>\<open>searchCountry\<close> does what
  \<^verbatim>\<open>showError('Please enter a country name')\<close> does and nothing else: it ends with the
  error region alone visible, with that exact message, and no URL has been fetched,
  whatever the network would have answered.
\<close>

theorem searchCountry_blank_input:
  assumes "trim (countryInput_value p) = []"
  shows "searchCountry eng net p = showError ''Please enter a country name'' p \<and>
         errorMessage_text (searchCountry eng net p) = ''Please enter a country name'' \<and>
         (\<forall>r. visible (searchCountry eng net p) r \<longleftrightarrow> r = ErrorRegion) \<and>
         fetched (searchCountry eng net p) = fetched p"
  using assms
  by (auto simp add: searchCountry_def showError_def visible_def split: region.splits)

theorem searchCountry_blank_input_witness:
  "trim (countryInput_value (example_page\<lparr>countryInput_value := ''   ''\<rparr>)) = [] \<and>
   errorMessage_text (searchCountry example_engine (one_match_network (Obj france))
       (example_page\<lparr>countryInput_value := ''   ''\<rparr>)) = ''Please enter a country name'' \<and>
   fetched (searchCountry example_engine (one_match_network (Obj france))
       (example_page\<lparr>countryInput_value := ''   ''\<rparr>)) = []"
proof -
  have t: "trim (countryInput_value (example_page\<lparr>countryInput_value := ''   ''\<rparr>)) = []"
    by (simp add: trim_def whitespace_def)
  show ?thesis
    using t searchCountry_blank_input [OF t, of example_engine "one_match_network (Obj france)"]
    by (simp add: example_page_def showError_def)
qed

subsection \<open>The country data client\<close>

lemma no_data_message_kept:
  "\<not> String_includes ''No data returned from API'' ''Failed to fetch''"
  unfolding String_includes_def by code_simp

lemma network_error_message_plain:
  "\<not> String_includes network_error_message ''Failed to fetch''"
  unfolding String_includes_def network_error_message_def by code_simp

lemma not_found_message_names: "String_includes (not_found_message countryName) countryName"
proof -
  have "not_found_message countryName =
          (''Country '' @ [CHR 0x22]) @ countryName @
          ([CHR 0x22] @ '' not found. Please check the spelling and try again.'')"
    unfolding not_found_message_def by (simp only: append_assoc)
  then show ?thesis
    unfolding String_includes_def by (simp only: sublist_appendI)
qed

text \<open>
  C4: for every response with an ok status (200 to 299) whose body is a list of matches,
  \<^verbatim>\<open>fetchCountryData\<close> returns the first element of a non-empty list, and for an empty
  list, as for a body that is \<^verbatim>\<open>null\<close> (a missing list), it fails with the error
  \<^verbatim>\<open>No data returned from API\<close> and returns no record.
\<close>

theorem fetchCountryData_ok_first_match:
  assumes "net (''https://restcountries.com/v3.1/name/'' @ encodeURIComponent countryName)
             = Fulfilled r"
    and "ok r"
  shows "(json r = Inr (Arr (x # xs)) \<longrightarrow>
            fst (fetchCountryData eng net countryName p) = Inr x) \<and>
         (json r = Inr (Arr []) \<or> json r = Inr Null \<or> json r = Inr Undefined \<longrightarrow>
            fst (fetchCountryData eng net countryName p)
              = Inl (Error ''No data returned from API''))"
  using assms no_data_message_kept
  by (auto simp add: fetchCountryData_def fetch_attempt_def fetch_recover_def ok_def Let_def
        bind_def message_def)

theorem fetchCountryData_ok_first_match_witness:
  "ok \<lparr>status = 200, statusText = ''OK'', json = Inr (Arr [Obj france])\<rparr> \<and>
   fst (fetchCountryData example_engine (one_match_network (Obj france)) ''France''
          example_page) = Inr (Obj france) \<and>
   ok \<lparr>status = 200, statusText = ''OK'', json = Inr (Arr [])\<rparr> \<and>
   fst (fetchCountryData example_engine no_match_network ''Atlantis'' example_page)
     = Inl (Error ''No data returned from API'')"
proof -
  have a: "ok \<lparr>status = 200, statusText = ''OK'', json = Inr (Arr [Obj france])\<rparr>"
    by (simp add: ok_def)
  have b: "ok \<lparr>status = 200, statusText = ''OK'', json = Inr (Arr [])\<rparr>"
    by (simp add: ok_def)
  have c: "one_match_network (Obj france)
             (''https://restcountries.com/v3.1/name/'' @ encodeURIComponent ''France'')
           = Fulfilled \<lparr>status = 200, statusText = ''OK'', json = Inr (Arr [Obj france])\<rparr>"
    by (simp add: one_match_network_def)
  have d: "no_match_network
             (''https://restcountries.com/v3.1/name/'' @ encodeURIComponent ''Atlantis'')
           = Fulfilled \<lparr>status = 200, statusText = ''OK'', json = Inr (Arr [])\<rparr>"
    by (simp add: no_match_network_def)
  from fetchCountryData_ok_first_match
      [where net = "one_match_network (Obj france)" and countryName = "''France''"
         and r = "\<lparr>status = 200, statusText = ''OK'', json = Inr (Arr [Obj france])\<rparr>"
         and x = "Obj france" and xs = "[]" and eng = example_engine and p = example_page,
       OF c a]
    fetchCountryData_ok_first_match
      [where net = no_match_network and countryName = "''Atlantis''"
         and r = "\<lparr>status = 200, statusText = ''OK'', json = Inr (Arr [])\<rparr>"
         and eng = example_engine and p = example_page,
       OF d b]
    a b
  show ?thesis by simp
qed

text \<open>
  Every error thrown in the \<^verbatim>\<open>try\<close> block passes through the \<^verbatim>\<open>catch\<close> block, the
  404 error that the block itself has just made included. The \<^verbatim>\<open>catch\<close> block replaces
  any error whose message contains \<^verbatim>\<open>Failed to fetch\<close> by the network error. The 404
  message quotes the searched name, so a name that contains \<^verbatim>\<open>Failed to fetch\<close> turns a
  404 into the network error, whose message does not name the search. For every other name
  the 404 message arrives unchanged and names the search:
\<close>

lemma not_found_message_includes:
  "String_includes (not_found_message countryName) ''Failed to fetch''
     \<longleftrightarrow> String_includes countryName ''Failed to fetch''"
proof
  assume "String_includes (not_found_message countryName) ''Failed to fetch''"
  then have "sublist ''Failed to fetch''
               (''Country '' @ CHR 0x22 #
                  (countryName @ CHR 0x22 #
                     '' not found. Please check the spelling and try again.''))"
    by (simp add: String_includes_def not_found_message_def)
  then have "sublist ''Failed to fetch'' ''Country '' \<or>
             sublist ''Failed to fetch''
               (countryName @ CHR 0x22 #
                  '' not found. Please check the spelling and try again.'')"
    by (rule sublist_around [rotated]) simp
  moreover have "\<not> sublist ''Failed to fetch'' ''Country ''"
    by code_simp
  ultimately have "sublist ''Failed to fetch''
               (countryName @ CHR 0x22 #
                  '' not found. Please check the spelling and try again.'')"
    by blast
  then have "sublist ''Failed to fetch'' countryName \<or>
             sublist ''Failed to fetch'' '' not found. Please check the spelling and try again.''"
    by (rule sublist_around [rotated]) simp
  moreover have
    "\<not> sublist ''Failed to fetch'' '' not found. Please check the spelling and try again.''"
    by code_simp
  ultimately show "String_includes countryName ''Failed to fetch''"
    by (simp add: String_includes_def)
next
  assume "String_includes countryName ''Failed to fetch''"
  then have "sublist ''Failed to fetch'' countryName"
    by (simp add: String_includes_def)
  moreover have "sublist countryName (not_found_message countryName)"
    using not_found_message_names by (simp add: String_includes_def)
  ultimately show "String_includes (not_found_message countryName) ''Failed to fetch''"
    unfolding String_includes_def by (rule sublist_order.order_trans)
qed

lemma fetchCountryData_404:
  assumes "net (''https://restcountries.com/v3.1/name/'' @ encodeURIComponent countryName)
             = Fulfilled r"
    and "status r = 404"
  shows "fst (fetchCountryData eng net countryName p) =
           Inl (Error (if String_includes countryName ''Failed to fetch''
                       then network_error_message else not_found_message countryName))"
  using assms not_found_message_includes [of countryName]
  by (simp add: fetchCountryData_def fetch_attempt_def fetch_recover_def Let_def message_def)

lemma searchCountry_404:
  assumes "trim (countryInput_value p) = countryName" and "countryName \<noteq> []"
    and "net (''https://restcountries.com/v3.1/name/'' @ encodeURIComponent countryName)
           = Fulfilled r"
    and "status r = 404"
  shows "errorMessage_text (searchCountry eng net p) =
           (if String_includes countryName ''Failed to fetch''
            then network_error_message else not_found_message countryName) \<and>
         (\<forall>g. visible (searchCountry eng net p) g \<longleftrightarrow> g = ErrorRegion)"
proof -
  obtain e q where fq: "fetchCountryData eng net countryName (showLoading p) = (e, q)"
    by (cases "fetchCountryData eng net countryName (showLoading p)")
  with fetchCountryData_404
      [where net = net and countryName = countryName and r = r and eng = eng
         and p = "showLoading p",
       OF assms(3,4)]
  have "e = Inl (Error (if String_includes countryName ''Failed to fetch''
                        then network_error_message else not_found_message countryName))"
    by simp
  with fq assms(1,2) have "searchCountry eng net p =
      showError (if String_includes countryName ''Failed to fetch''
                 then network_error_message else not_found_message countryName) q"
    by (simp add: searchCountry_def message_def)
  then show ?thesis
    by (auto simp add: showError_def visible_def split: region.splits)
qed

lemma trim_Failed_to_fetch: "trim ''Failed to fetch'' = ''Failed to fetch''"
  by (simp add: trim_def whitespace_def)

text \<open>
  C5 says: for every searched name, when the look-up answers with status 404,
  \<^verbatim>\<open>fetchCountryData\<close> fails with an error whose message contains the searched name, and
  a submit of that name ends in the error state with that message. The code does so for
  every name that does not contain \<^verbatim>\<open>Failed to fetch\<close> (\<open>fetchCountryData_404\<close>,
  \<open>searchCountry_404\<close>, \<open>not_found_message_names\<close>) and not for the others. The theorem
  runs the code at the name \<^verbatim>\<open>Failed to fetch\<close> with a network that answers 404: the
  client fails with the network error, the search ends in the error state with that
  message, and the message does not contain the searched name.
\<close>

theorem searchCountry_404_loses_name:
  "fst (fetchCountryData eng not_found_network ''Failed to fetch'' p)
     = Inl (Error network_error_message) \<and>
   errorMessage_text
     (searchCountry eng not_found_network (p\<lparr>countryInput_value := ''Failed to fetch''\<rparr>))
     = network_error_message \<and>
   (\<forall>g. visible
          (searchCountry eng not_found_network (p\<lparr>countryInput_value := ''Failed to fetch''\<rparr>)) g
        \<longleftrightarrow> g = ErrorRegion) \<and>
   \<not> String_includes network_error_message ''Failed to fetch''"
proof -
  have n: "not_found_network
             (''https://restcountries.com/v3.1/name/'' @ encodeURIComponent ''Failed to fetch'')
           = Fulfilled \<lparr>status = 404, statusText = ''Not Found'',
               json = Inr (Obj [(''status'', Num 404), (''message'', Str ''Not Found'')])\<rparr>"
    by (simp add: not_found_network_def)
  have i: "String_includes ''Failed to fetch'' ''Failed to fetch''"
    by (simp add: String_includes_def)
  have f: "fst (fetchCountryData eng not_found_network ''Failed to fetch'' p)
             = Inl (Error network_error_message)"
    using fetchCountryData_404
        [where net = not_found_network and countryName = "''Failed to fetch''" and eng = eng,
         OF n]
      i
    by simp
  have t: "trim (countryInput_value (p\<lparr>countryInput_value := ''Failed to fetch''\<rparr>))
             = ''Failed to fetch''"
    by (simp add: trim_Failed_to_fetch)
  from searchCountry_404
      [where net = not_found_network and countryName = "''Failed to fetch''" and eng = eng,
       OF t _ n]
    i f network_error_message_plain
  show ?thesis by simp
qed

subsection \<open>Displaying a record: completion\<close>

lemma badges_complete:
  "list_all is_Str xs \<Longrightarrow> completes (run (map (\<lambda>x. assign store (createBadge x)) xs))"
proof (rule run_completes)
  assume "list_all is_Str xs"
  then show "list_all completes (map (\<lambda>x. assign store (createBadge x)) xs)"
    by (auto simp add: list_all_iff is_Str_conv createBadge_def text_of_def nullish_def bind_def
        assign_Inr_completes)
qed

lemma Array_map_currency_view:
  "list_all (\<lambda>v. currency_view v \<noteq> None) vs \<Longrightarrow>
   \<exists>ss. Array_map currency_entry vs = Inr (map Str ss)"
proof (induction vs)
  case Nil
  then show ?case by simp
next
  case (Cons v vs)
  from Cons.prems have "currency_view v \<noteq> None"
    and "list_all (\<lambda>v. currency_view v \<noteq> None) vs"
    by simp_all
  with Cons.IH currency_entry_returns [of v]
  obtain s ss where "currency_entry v = Inr (Str s)"
    and "Array_map currency_entry vs = Inr (map Str ss)"
    by blast
  then have "Array_map currency_entry (v # vs) = Inr (map Str (s # ss))"
    by (simp add: bind_def)
  then show ?case by blast
qed

lemma getCurrencies_completes:
  assumes "optional currency_map v"
  shows "\<exists>s. getCurrencies v = Inr s"
proof (cases "nullish v")
  case True
  then show ?thesis by (auto simp add: getCurrencies_def nullish_def)
next
  case False
  with assms obtain kvs where v: "v = Obj kvs"
    and all: "list_all (\<lambda>kv. currency_view (snd kv) \<noteq> None) kvs"
    by (cases v) (auto simp add: optional_def)
  from all have "list_all (\<lambda>v. currency_view v \<noteq> None) (map snd kvs)"
    by (simp add: list_all_iff)
  from Array_map_currency_view [OF this]
  obtain ss where "Array_map currency_entry (map snd kvs) = Inr (map Str ss)"
    by blast
  with v show ?thesis
    by (simp add: getCurrencies_def bind_def Array_join_def ToStrings_Str)
qed

lemma first_text_completes:
  assumes "optional str_list v"
  shows "\<exists>s. bind (if truthy v then index v 0 else Inr (Str d)) text_of = Inr s"
proof (cases "nullish v")
  case True
  then show ?thesis by (auto simp add: nullish_def bind_def text_of_def)
next
  case False
  with assms obtain xs where "v = Arr xs" and "list_all is_Str xs"
    by (cases v) (auto simp add: optional_def)
  then show ?thesis
    by (cases xs) (auto simp add: bind_def text_of_def nullish_def is_Str_conv)
qed

lemma first_ToString_completes:
  assumes "optional str_list v"
  shows "\<exists>s. (if truthy v then bind (index v 0) ToString else Inr []) = Inr s"
proof (cases "nullish v")
  case True
  then show ?thesis by (auto simp add: nullish_def)
next
  case False
  with assms obtain xs where "v = Arr xs" and "list_all is_Str xs"
    by (cases v) (auto simp add: optional_def)
  then show ?thesis
    by (cases xs) (auto simp add: bind_def is_Str_conv)
qed

lemma getLanguages_completes:
  assumes "optional str_map v"
  shows "\<exists>xs. getLanguages v = Inr xs \<and> list_all is_Str xs"
proof (cases "nullish v")
  case True
  then show ?thesis by (auto simp add: nullish_def getLanguages_def)
next
  case False
  with assms obtain kvs where "v = Obj kvs" and "list_all (\<lambda>kv. is_Str (snd kv)) kvs"
    by (cases v) (auto simp add: optional_def)
  then show ?thesis by (simp add: getLanguages_def list_all_iff)
qed

lemma call_forEach_badges:
  assumes "optional str_list v"
  shows "completes (call_forEach (if truthy v then v else Arr [Str d])
           (\<lambda>x. assign store (createBadge x)))"
proof (cases "nullish v")
  case True
  have "list_all is_Str [Str d]" by simp
  from badges_complete [OF this] True show ?thesis
    by (auto simp add: nullish_def)
next
  case False
  with assms obtain xs where "v = Arr xs" and "list_all is_Str xs"
    by (cases v) (auto simp add: optional_def)
  with badges_complete [of xs store] show ?thesis by simp
qed

lemma optional_cases:
  assumes "optional P v"
  obtains "v = Undefined" | "v = Null" | "P v"
  using assms by (auto simp add: optional_def nullish_def)

lemma optional_Str_ToString: "optional is_Str v \<Longrightarrow> \<exists>s. ToString v = Inr s"
  by (erule optional_cases) (auto simp add: is_Str_conv)

lemma optional_Str_text_of: "optional is_Str v \<Longrightarrow> \<exists>s. text_of v = Inr s"
  by (erule optional_cases) (auto simp add: is_Str_conv text_of_def nullish_def)

lemma number_index_ToString:
  "list_all is_number xs \<Longrightarrow> \<exists>s. ToString (if i < length xs then xs ! i else Undefined) = Inr s"
  by (auto simp add: list_all_length is_number_ToString)

text \<open>
  On a typed record that has the seven containers every statement of the body completes,
  one by one.
\<close>

lemma typed_record_fields:
  assumes "typed_record kvs"
  shows "optional name_typed (lookup kvs ''name'')"
    and "optional flags_typed (lookup kvs ''flags'')"
    and "optional is_Str (lookup kvs ''region'')"
    and "optional is_number (lookup kvs ''population'')"
    and "optional is_number (lookup kvs ''area'')"
    and "optional number_list (lookup kvs ''latlng'')"
    and "optional str_list (lookup kvs ''timezones'')"
    and "optional idd_ok (lookup kvs ''idd'')"
    and "optional str_list (lookup kvs ''capital'')"
    and "optional is_Str (lookup kvs ''subregion'')"
    and "optional currency_map (lookup kvs ''currencies'')"
    and "optional str_map (lookup kvs ''languages'')"
    and "optional str_list (lookup kvs ''tld'')"
    and "optional str_list (lookup kvs ''continents'')"
    and "optional str_list (lookup kvs ''borders'')"
  using assms unfolding typed_record_def by blast+

lemma containers_present_fields:
  assumes "containers_present kvs"
  shows "\<not> nullish (lookup kvs ''name'')"
    and "\<not> nullish (lookup kvs ''flags'')"
    and "\<not> nullish (lookup kvs ''population'')"
    and "\<not> nullish (lookup kvs ''area'')"
    and "\<not> nullish (lookup kvs ''latlng'')"
    and "\<not> nullish (lookup kvs ''timezones'')"
    and "\<not> nullish (lookup kvs ''idd'')"
  using assms by (simp_all add: containers_present_def containers_def)

lemma optional_present: "optional P v \<Longrightarrow> \<not> nullish v \<Longrightarrow> P v"
  by (simp add: optional_def)

lemma optionalI: "P v \<Longrightarrow> optional P v"
  by (simp add: optional_def)

lemma name_typed_conv:
  "name_typed v \<Longrightarrow> \<exists>n. v = Obj n \<and> optional is_Str (lookup n ''common'') \<and>
     optional is_Str (lookup n ''official'')"
  by (cases v) simp_all

lemma flags_typed_conv:
  "flags_typed v \<Longrightarrow> \<exists>f. v = Obj f \<and> optional is_Str (lookup f ''svg'')"
  by (cases v) simp_all

lemma number_list_conv: "number_list v \<Longrightarrow> \<exists>xs. v = Arr xs \<and> list_all is_number xs"
  by (cases v) simp_all

lemma str_list_conv: "str_list v \<Longrightarrow> \<exists>xs. v = Arr xs \<and> list_all is_Str xs"
  by (cases v) simp_all

lemma idd_ok_conv:
  "idd_ok v \<Longrightarrow> \<exists>i. v = Obj i \<and> optional is_Str (lookup i ''root'') \<and>
     optional str_list (lookup i ''suffixes'')"
  by (cases v) simp_all

lemma typed_record_completes:
  assumes "typed_record kvs" and "containers_present kvs"
  shows "list_all completes (displayCountryInfo_body eng (Obj kvs))"
proof -
  note t = typed_record_fields [OF assms(1)]
  note c = containers_present_fields [OF assms(2)]
  from name_typed_conv [OF optional_present [OF t(1) c(1)]]
  obtain n where name: "lookup kvs ''name'' = Obj n"
      "optional is_Str (lookup n ''common'')" "optional is_Str (lookup n ''official'')"
    by blast
  from flags_typed_conv [OF optional_present [OF t(2) c(2)]]
  obtain f where flags: "lookup kvs ''flags'' = Obj f"
      "optional is_Str (lookup f ''svg'')"
    by blast
  from number_list_conv [OF optional_present [OF t(6) c(5)]]
  obtain ll where latlng: "lookup kvs ''latlng'' = Arr ll" "list_all is_number ll"
    by blast
  from str_list_conv [OF optional_present [OF t(7) c(6)]]
  obtain tz where timezones: "lookup kvs ''timezones'' = Arr tz" "list_all is_Str tz"
    by blast
  from idd_ok_conv [OF optional_present [OF t(8) c(7)]]
  obtain i where idd: "lookup kvs ''idd'' = Obj i"
      "optional is_Str (lookup i ''root'')" "optional str_list (lookup i ''suffixes'')"
    by blast
  note population = optional_present [OF t(4) c(3)]
  note area = optional_present [OF t(5) c(4)]
  note region = t(3)
  note capital = t(9)
  note subregion = t(10)
  note currencies = t(11)
  note languages = t(12)
  note tld = t(13)
  note continents = t(14)
  note borders = t(15)
  show ?thesis
    unfolding displayCountryInfo_body_def
    apply (simp only: list.pred_inject simp_thms)
    apply (intro conjI)
    subgoal using name(1) by (simp add: bind_def assign_Inr_completes)
    subgoal using flags(1) optional_Str_ToString [OF flags(2)]
      by (auto simp add: bind_def assign_Inr_completes)
    subgoal using name(1) optional_Str_ToString [OF name(2)]
      by (auto simp add: bind_def assign_Inr_completes)
    subgoal using name(1) optional_Str_text_of [OF name(2)]
      by (auto simp add: bind_def assign_Inr_completes)
    subgoal using name(1) optional_Str_text_of [OF name(3)]
      by (auto simp add: bind_def assign_Inr_completes)
    subgoal using first_text_completes [OF capital, of "''Not available''"]
      by (auto simp add: bind_def assign_Inr_completes)
    subgoal using optional_Str_ToString [OF region] optional_Str_ToString [OF subregion]
      by (auto simp add: bind_def assign_Inr_completes)
    subgoal using is_number_formatNumber [OF population, of eng]
      by (auto simp add: bind_def assign_Inr_completes)
    subgoal using is_number_formatNumber [OF area, of eng]
      by (auto simp add: bind_def assign_Inr_completes)
    subgoal using getCurrencies_completes [OF currencies]
      by (auto simp add: bind_def assign_Inr_completes)
    subgoal by (simp add: completes_def)
    subgoal using getLanguages_completes [OF languages]
        badges_complete
          [where store = "\<lambda>b p. p\<lparr>languages_badges := languages_badges p @ [b]\<rparr>"]
      by (auto simp add: bind_def completes_def)
    subgoal by (simp add: completes_def)
    subgoal using call_forEach_badges [OF tld, of "''Not available''"
          "\<lambda>b p. p\<lparr>domains_badges := domains_badges p @ [b]\<rparr>"]
      by (simp add: completes_def)
    subgoal using latlng(1) number_index_ToString [OF latlng(2), of 0]
        number_index_ToString [OF latlng(2), of 1]
      by (auto simp add: bind_def assign_Inr_completes)
    subgoal using timezones ToStrings_Str_list [of tz]
      by (auto simp add: bind_def assign_Inr_completes Array_join_def)
    subgoal using first_text_completes [OF continents, of "''Not available''"]
      by (auto simp add: bind_def assign_Inr_completes)
    subgoal using idd(1) optional_Str_ToString [OF idd(2)] first_ToString_completes [OF idd(3)]
      by (auto simp add: bind_def assign_Inr_completes)
    subgoal using borders
      by (cases "lookup kvs ''borders''")
        (auto simp add: bind_def assign_Inr_completes optional_def nullish_def)
    subgoal by (simp add: bind_def assign_Inr_completes)
    subgoal by (simp add: bind_def assign_Inr_completes)
    done
qed

lemma typed_record_display_completes:
  assumes "typed_record kvs" and "containers_present kvs"
  shows "fst (displayCountryInfo eng (Obj kvs) p) = None"
  using run_completes [OF typed_record_completes [OF assms, of eng]]
  by (simp add: displayCountryInfo_def completes_def)

text \<open>
  A country record, which has the inner fields as well, is a typed record that has the
  seven containers.
\<close>

lemma name_ok_typed: "name_ok v \<Longrightarrow> name_typed v \<and> \<not> nullish v"
  by (cases v) (simp_all add: nullish_def optional_def)

lemma flags_ok_typed: "flags_ok v \<Longrightarrow> flags_typed v \<and> \<not> nullish v"
  by (cases v) (simp_all add: nullish_def optional_def)

lemma latlng_ok_typed: "latlng_ok v \<Longrightarrow> number_list v \<and> \<not> nullish v"
  by (cases v) (simp_all add: nullish_def)

lemma idd_ok_present: "idd_ok v \<Longrightarrow> \<not> nullish v"
  by (cases v) (simp_all add: nullish_def)

lemma str_list_present: "str_list v \<Longrightarrow> \<not> nullish v"
  by (cases v) (simp_all add: nullish_def)

lemma is_number_present: "is_number v \<Longrightarrow> \<not> nullish v"
  by (cases v) (simp_all add: nullish_def)

lemma country_record_typed:
  assumes "country_record kvs"
  shows "typed_record kvs \<and> containers_present kvs"
proof -
  from assms have r: "name_ok (lookup kvs ''name'')"
      "flags_ok (lookup kvs ''flags'')"
      "is_Str (lookup kvs ''region'')"
      "is_number (lookup kvs ''population'')"
      "is_number (lookup kvs ''area'')"
      "latlng_ok (lookup kvs ''latlng'')"
      "str_list (lookup kvs ''timezones'')"
      "idd_ok (lookup kvs ''idd'')"
    and o: "optional str_list (lookup kvs ''capital'')"
      "optional is_Str (lookup kvs ''subregion'')"
      "optional currency_map (lookup kvs ''currencies'')"
      "optional str_map (lookup kvs ''languages'')"
      "optional str_list (lookup kvs ''tld'')"
      "optional str_list (lookup kvs ''continents'')"
      "optional str_list (lookup kvs ''borders'')"
    unfolding country_record_def by blast+
  have "typed_record kvs"
    unfolding typed_record_def
    by (intro conjI o optionalI r name_ok_typed [OF r(1), THEN conjunct1]
        flags_ok_typed [OF r(2), THEN conjunct1] latlng_ok_typed [OF r(6), THEN conjunct1])
  moreover have "containers_present kvs"
    using name_ok_typed [OF r(1)] flags_ok_typed [OF r(2)] latlng_ok_typed [OF r(6)]
      is_number_present [OF r(4)] is_number_present [OF r(5)]
      str_list_present [OF r(7)] idd_ok_present [OF r(8)]
    by (simp add: containers_present_def containers_def)
  ultimately show ?thesis ..
qed

lemma displayCountryInfo_completes:
  assumes "country_record kvs"
  shows "fst (displayCountryInfo eng (Obj kvs) p) = None"
  using country_record_typed [OF assms] typed_record_display_completes [of kvs eng p]
  by simp

subsection \<open>Displaying a record: what the fields show\<close>

lemma length_body: "length (displayCountryInfo_body eng c) = 21"
  by (simp add: displayCountryInfo_body_def)

lemma body_field:
  assumes "displayCountryInfo eng c p = (None, p')" and "k < 21"
    and "list_all (preserves f) (drop (Suc k) (displayCountryInfo_body eng c))"
  shows "\<exists>q q'. (displayCountryInfo_body eng c ! k) q = (None, q') \<and> f p' = f q'"
  using assms run_field [of "displayCountryInfo_body eng c" p p' k f]
  by (simp add: displayCountryInfo_def length_body)








lemma borders_shown:
  assumes "displayCountryInfo eng (Obj kvs) p = (None, p')"
  shows "(nullish (lookup kvs ''borders'') \<longrightarrow> borders_text p' = ''None (island/isolated)'') \<and>
         (lookup kvs ''borders'' = Arr bs \<longrightarrow>
            borders_text p' = show_nat (length bs) @ '' countries'')"
proof -
  have "list_all (preserves borders_text)
          (drop (Suc 18) (displayCountryInfo_body eng (Obj kvs)))"
    by (simp add: displayCountryInfo_body_def preserved split: sum.splits)
  from body_field [OF assms(1) _ this] obtain q q'
    where "(displayCountryInfo_body eng (Obj kvs) ! 18) q = (None, q')"
      and "borders_text p' = borders_text q'"
    by auto
  then show ?thesis
    by (auto simp add: displayCountryInfo_body_def nullish_def bind_def show_int_def
        dest!: assign_None)
qed

subsection \<open>Evaluation on the example records\<close>

lemmas eval_defs = displayCountryInfo_def displayCountryInfo_body_def assign_def bind_def
  lookup_def text_of_def nullish_def getCurrencies_def getLanguages_def createBadge_def
  formatNumber_def group_thousands_def show_int_def Array_join_def currency_entry_def
  digit_char_def

lemma france_record: "country_record france"
  by (simp add: country_record_def france_def lookup_def optional_def nullish_def
      currency_view_def safe_integer_def)



lemma france_displayed:
  "displayCountryInfo example_engine (Obj france) example_page = (None, p) \<Longrightarrow>
   countryName_text p = ''France'' \<and> officialName_text p = ''French Republic'' \<and>
   capital_text p = ''Paris'' \<and> region_text p = ''Europe - Western Europe'' \<and>
   population_text p = ''67,391,582'' \<and> currencies_text p = ''Euro (E)'' \<and>
   map textContent (languages_badges p) = [''French''] \<and>
   countryMap_src p = ''https://maps.google.com/maps?q=46,2&z=5&output=embed'' \<and>
   callingCode_text p = ''+33'' \<and> borders_text p = ''8 countries'' \<and>
   independent_text p = ''Yes''"
  by (auto simp add: eval_defs france_def example_page_def example_engine_def show_nat.simps)

text \<open>
  C3, as stated, fails at a border list that is present and empty: an empty array is
  truthy, so the field shows the count, \<^verbatim>\<open>0 countries\<close>, and not the default.
\<close>

theorem borders_empty_list_counterexample:
  "lookup iceland_no_borders ''borders'' = Arr [] \<and>
   fst (displayCountryInfo example_engine (Obj iceland_no_borders) example_page) = None \<and>
   borders_text (snd (displayCountryInfo example_engine (Obj iceland_no_borders) example_page))
     = ''0 countries'' \<and>
   borders_text (snd (displayCountryInfo example_engine (Obj iceland_no_borders) example_page))
     \<noteq> ''None (island/isolated)''"
  by (simp add: eval_defs iceland_no_borders_def example_page_def example_engine_def
      show_nat.simps)

text \<open>
  C3 (amended): whenever \<^verbatim>\<open>displayCountryInfo\<close> completes on a record, the borders field
  shows the default \<^verbatim>\<open>None (island/isolated)\<close> if the record's border list is absent
  (\<^verbatim>\<open>undefined\<close> or \<^verbatim>\<open>null\<close>), and for every border list that is present, the empty list
  included, it shows the count of border-country codes followed by \<^verbatim>\<open> countries\<close> (so
  \<^verbatim>\<open>0 countries\<close> for the empty list). The field is written on lines 196-197, near the
  end of the function, so a run that throws earlier never writes it.
\<close>

theorem borders_field:
  assumes "displayCountryInfo eng (Obj kvs) p = (None, p')"
  shows "(nullish (lookup kvs ''borders'') \<longrightarrow> borders_text p' = ''None (island/isolated)'') \<and>
         (lookup kvs ''borders'' = Arr bs \<longrightarrow>
            borders_text p' = show_nat (length bs) @ '' countries'')"
  using assms by (rule borders_shown)

theorem borders_field_witness:
  "displayCountryInfo example_engine (Obj france) example_page
     = (None, snd (displayCountryInfo example_engine (Obj france) example_page)) \<and>
   borders_text (snd (displayCountryInfo example_engine (Obj france) example_page))
     = ''8 countries'' \<and>
   displayCountryInfo example_engine (Obj bare_record) example_page
     = (None, snd (displayCountryInfo example_engine (Obj bare_record) example_page)) \<and>
   nullish (lookup bare_record ''borders'') \<and>
   borders_text (snd (displayCountryInfo example_engine (Obj bare_record) example_page))
     = ''None (island/isolated)''"
proof -
  have f: "displayCountryInfo example_engine (Obj france) example_page
             = (None, snd (displayCountryInfo example_engine (Obj france) example_page))"
    using displayCountryInfo_completes [OF france_record, of example_engine example_page]
    by (simp add: prod_eq_iff)
  have b: "displayCountryInfo example_engine (Obj bare_record) example_page
             = (None, snd (displayCountryInfo example_engine (Obj bare_record) example_page))"
    by (simp add: eval_defs bare_record_def example_page_def example_engine_def
        show_nat.simps)
  have fb: "lookup france ''borders''
              = Arr [Str ''AND'', Str ''BEL'', Str ''DEU'', Str ''ITA'', Str ''LUX'',
                     Str ''MCO'', Str ''ESP'', Str ''CHE'']"
    by (simp add: france_def lookup_def)
  have bb: "nullish (lookup bare_record ''borders'')"
    by (simp add: bare_record_def lookup_def nullish_def)
  from borders_field
      [OF f, where bs = "[Str ''AND'', Str ''BEL'', Str ''DEU'', Str ''ITA'', Str ''LUX'',
                          Str ''MCO'', Str ''ESP'', Str ''CHE'']"] fb
  have "borders_text (snd (displayCountryInfo example_engine (Obj france) example_page))
          = ''8 countries''"
    by (simp add: show_nat.simps digit_char_def)
  moreover from borders_field [OF b] bb
  have "borders_text (snd (displayCountryInfo example_engine (Obj bare_record) example_page))
          = ''None (island/isolated)''"
    by simp
  ultimately show ?thesis
    using f b bb by simp
qed

subsection \<open>Displaying a record: the precondition\<close>







end
